theory Spec2Isabelle
  imports Complex_Main "HOL-Library.Log_Nat"
begin

section \<open>The page script: numbers, rate tables and application state\<close>

text \<open>
  The page script (\<^verbatim>\<open>script.js\<close>, production version 1.0.4, the first of the copies
  of the script in the sources) keeps its state in the global object \<^verbatim>\<open>AppState\<close>
  and reads its constants from \<^verbatim>\<open>CONFIG\<close>. A property that is absent reads as
  \<^verbatim>\<open>undefined\<close>, here \<open>None\<close>. The durations \<^verbatim>\<open>CONFIG.REFRESH_INTERVAL\<close> and
  \<^verbatim>\<open>CONFIG.TIMEOUT\<close> do not appear: time is not modelled, only the events the timers
  raise.
\<close>

subsection \<open>Numbers\<close>

text \<open>
  A JavaScript number is an IEEE 754 double: a finite value, \<^verbatim>\<open>Infinity\<close> or
  \<^verbatim>\<open>-Infinity\<close> (\<open>Infinity True\<close> is the positive one), or \<^verbatim>\<open>NaN\<close>. A finite
  double is given by its exact value, a rational. The two zeros of the format are one
  value here: the script never tells them apart, since a zero rate of either sign is
  falsy and a zero change of either sign is stored as the literal \<^verbatim>\<open>0\<close>.
\<close>

datatype number = Num rat | Infinity bool | NaN

text \<open>
  Rounding to the nearest double, ties to the even significand. \<open>exponent x\<close> is the
  integer \<open>e\<close> with \<open>2^e \<le> |x| < 2^(e+1)\<close>. A double has a significand of 53 bits
  and an exponent from \<open>-1022\<close> (below it the values are subnormal, spaced \<open>2^-1074\<close>
  apart) to \<open>1023\<close>; a value that rounds to \<open>2^1024\<close> or beyond becomes infinite.
\<close>

definition pow2 :: "int \<Rightarrow> rat" where
  "pow2 e = (if 0 \<le> e then 2 ^ nat e else 1 / 2 ^ nat (- e))"

definition exponent :: "rat \<Rightarrow> int" where
  "exponent x =
     (if 1 \<le> \<bar>x\<bar> then bitlen \<lfloor>\<bar>x\<bar>\<rfloor> - 1 else - bitlen (\<lceil>1 / \<bar>x\<bar>\<rceil> - 1))"

definition round_half_even :: "rat \<Rightarrow> int" where
  "round_half_even x =
     (let f = \<lfloor>x\<rfloor>; d = x - of_int f
      in if d < 1 / 2 then f else if 1 / 2 < d then f + 1 else if even f then f else f + 1)"

definition double_of :: "rat \<Rightarrow> number" where
  "double_of x =
     (if x = 0 then Num 0
      else
        (let e = max (exponent x) (- 1022);
             n = round_half_even (x / pow2 (e - 52))
         in if 1023 < e \<or> (e = 1023 \<and> 2 ^ 53 \<le> \<bar>n\<bar>) then Infinity (0 < x)
            else Num (of_int n * pow2 (e - 52))))"

text \<open>
  The operators the script applies to numbers: \<^verbatim>\<open>-\<close>, \<^verbatim>\<open>/\<close>, \<^verbatim>\<open>*\<close>, \<^verbatim>\<open>Math.abs\<close> and
  \<^verbatim>\<open>>\<close>. Each result on finite operands is the exact result rounded to a double. A
  quotient by zero is infinite with the sign of the dividend (the zero taken as
  positive), or \<^verbatim>\<open>NaN\<close> for zero by zero.
\<close>

fun js_minus :: "number \<Rightarrow> number \<Rightarrow> number" where
  "js_minus (Num a) (Num b) = double_of (a - b)"
| "js_minus NaN y = NaN"
| "js_minus x NaN = NaN"
| "js_minus (Infinity s) (Infinity t) = (if s = t then NaN else Infinity s)"
| "js_minus (Infinity s) (Num b) = Infinity s"
| "js_minus (Num a) (Infinity t) = Infinity (\<not> t)"

fun js_divide :: "number \<Rightarrow> number \<Rightarrow> number" where
  "js_divide (Num a) (Num b) =
     (if b = 0 then (if a = 0 then NaN else Infinity (0 < a)) else double_of (a / b))"
| "js_divide NaN y = NaN"
| "js_divide x NaN = NaN"
| "js_divide (Infinity s) (Infinity t) = NaN"
| "js_divide (Infinity s) (Num b) = Infinity (if b < 0 then \<not> s else s)"
| "js_divide (Num a) (Infinity t) = Num 0"

fun js_times :: "number \<Rightarrow> number \<Rightarrow> number" where
  "js_times (Num a) (Num b) = double_of (a * b)"
| "js_times NaN y = NaN"
| "js_times x NaN = NaN"
| "js_times (Infinity s) (Infinity t) = Infinity (s = t)"
| "js_times (Infinity s) (Num b) = (if b = 0 then NaN else Infinity (s = (0 < b)))"
| "js_times (Num a) (Infinity t) = (if a = 0 then NaN else Infinity (t = (0 < a)))"

fun js_abs :: "number \<Rightarrow> number" where
  "js_abs (Num a) = Num \<bar>a\<bar>"
| "js_abs (Infinity s) = Infinity True"
| "js_abs NaN = NaN"

fun js_greater :: "number \<Rightarrow> number \<Rightarrow> bool" where
  "js_greater (Num a) (Num b) = (b < a)"
| "js_greater NaN y = False"
| "js_greater x NaN = False"
| "js_greater (Infinity s) (Infinity t) = (s \<and> \<not> t)"
| "js_greater (Infinity s) (Num b) = s"
| "js_greater (Num a) (Infinity t) = (\<not> t)"

subsection \<open>Rate tables\<close>

text \<open>
  A rate table is a JavaScript object from currency codes to the entries of a parsed
  response. The script never checks an entry, so it meets whatever the response held:
  an entry is a number or \<^verbatim>\<open>null\<close> (strings, booleans and nested values are left
  out). \<open>truthy\<close> is the truthiness of a property read: \<^verbatim>\<open>undefined\<close>, \<^verbatim>\<open>null\<close>, zero
  and \<^verbatim>\<open>NaN\<close> are falsy. \<open>ToNumber\<close> is the conversion the operator \<^verbatim>\<open>-\<close> applies to
  its operands.
\<close>

datatype entry = Rate number | Null

type_synonym rates = "string \<rightharpoonup> entry"

type_synonym changes = "string \<rightharpoonup> number"

definition truthy :: "entry option \<Rightarrow> bool" where
  "truthy v =
     (case v of
        None \<Rightarrow> False
      | Some Null \<Rightarrow> False
      | Some (Rate (Num r)) \<Rightarrow> r \<noteq> 0
      | Some (Rate (Infinity s)) \<Rightarrow> True
      | Some (Rate NaN) \<Rightarrow> False)"

definition ToNumber :: "entry \<Rightarrow> number" where
  "ToNumber v = (case v of Rate n \<Rightarrow> n | Null \<Rightarrow> Num 0)"

subsection \<open>Configuration and application state\<close>

definition TARGET_CURRENCIES :: "string list" where
  "TARGET_CURRENCIES =
     [''USD'', ''EUR'', ''GBP'', ''JPY'', ''CHF'', ''CAD'', ''AUD'', ''CNY'']"

definition API_BASE_URL :: string where
  "API_BASE_URL = ''https://api.frankfurter.app''"

text \<open>
  \<^verbatim>\<open>AppState\<close>. \<open>previousRates\<close> is the store of the last table seen per base currency;
  \<open>lastSuccessfulUpdate\<close> is a timestamp or \<^verbatim>\<open>null\<close>; \<open>autoRefreshInterval\<close> is the
  identifier of the interval timer or \<^verbatim>\<open>null\<close>.
\<close>

record app_state =
  previousRates :: "string \<rightharpoonup> rates"
  currentRates :: rates
  currentBaseCurrency :: string
  isOnline :: bool
  lastSuccessfulUpdate :: "nat option"
  autoRefreshInterval :: "nat option"
  isFetching :: bool

text \<open>The initial value of \<^verbatim>\<open>AppState\<close>, as the script declares it.\<close>

definition AppState_initial :: app_state where
  "AppState_initial =
     \<lparr>previousRates = Map.empty, currentRates = Map.empty,
      currentBaseCurrency = ''EUR'', isOnline = True, lastSuccessfulUpdate = None,
      autoRefreshInterval = None, isFetching = False\<rparr>"

section \<open>calculateRealTimeChanges\<close>

text \<open>
  The body of the \<^verbatim>\<open>forEach\<close> callback of \<^verbatim>\<open>calculateRealTimeChanges\<close>, for one
  currency of \<^verbatim>\<open>CONFIG.TARGET_CURRENCIES\<close>, under its guard
  \<^verbatim>\<open>currency !== baseCurrency && currentRates[currency] && previous[currency]\<close>.
  The literal \<^verbatim>\<open>100\<close> is a double; the literal \<^verbatim>\<open>0.001\<close> is the double nearest to
  one thousandth.
\<close>

definition change_step :: "rates \<Rightarrow> rates \<Rightarrow> string \<Rightarrow> string \<Rightarrow> changes \<Rightarrow> changes" where
  "change_step cur previous baseCurrency currency changes =
     (if currency \<noteq> baseCurrency \<and> truthy (cur currency) \<and> truthy (previous currency) then
        (let currentRate = the (cur currency);
             previousRate = the (previous currency);
             change = js_times
               (js_divide (js_minus (ToNumber currentRate) (ToNumber previousRate))
                  (ToNumber previousRate))
               (Num 100)
         in if js_greater (js_abs change) (double_of (1 / 1000))
            then changes(currency \<mapsto> change)
            else changes(currency \<mapsto> Num 0))
      else changes)"

text \<open>
  \<^verbatim>\<open>calculateRealTimeChanges(currentRates, baseCurrency)\<close>: reads the stored table of
  the base currency from \<^verbatim>\<open>AppState.previousRates\<close>, computes the changes when there is
  one, then stores a copy of the current table under the base currency and returns the
  changes.
\<close>

definition calculateRealTimeChanges ::
  "rates \<Rightarrow> string \<Rightarrow> 'a app_state_scheme \<Rightarrow> changes \<times> 'a app_state_scheme" where
  "calculateRealTimeChanges cur baseCurrency s =
     (let changes =
            (case previousRates s baseCurrency of
               None \<Rightarrow> Map.empty
             | Some previous \<Rightarrow>
                 fold (change_step cur previous baseCurrency) TARGET_CURRENCIES Map.empty)
      in (changes, s\<lparr>previousRates := (previousRates s)(baseCurrency \<mapsto> cur)\<rparr>))"

section \<open>The page: application state, visible elements and timers\<close>

text \<open>
  The page is \<^verbatim>\<open>AppState\<close> together with what the script shows and the interval
  timers of the host. Every element the script looks up is taken to exist, so each
  \<^verbatim>\<open>if (Elements.x)\<close> guard of the display functions holds. \<open>displayed\<close> is the
  content of the table body: the rate table, the base currency and the changes that
  \<^verbatim>\<open>displayResults\<close> rendered there in full, or \<open>None\<close> when the body holds anything
  else. \<open>intervals\<close> are the identifiers of the running interval timers,
  \<open>timerCounter\<close> the last identifier the host handed out.
\<close>

record page = app_state +
  loadingHidden :: bool
  errorHidden :: bool
  errorMessage :: string
  resultsHidden :: bool
  fallbackHidden :: bool
  formDisabled :: bool
  displayed :: "(rates \<times> string \<times> changes) option"
  onlineIndicator :: bool
  intervals :: "nat list"
  timerCounter :: nat

definition showLoading :: "page \<Rightarrow> page" where
  "showLoading s = s\<lparr>loadingHidden := False\<rparr>"

definition hideLoading :: "page \<Rightarrow> page" where
  "hideLoading s = s\<lparr>loadingHidden := True\<rparr>"

definition showError :: "string \<Rightarrow> page \<Rightarrow> page" where
  "showError msg s = s\<lparr>errorMessage := msg, errorHidden := False\<rparr>"

definition hideError :: "page \<Rightarrow> page" where
  "hideError s = s\<lparr>errorHidden := True\<rparr>"

definition showResults :: "page \<Rightarrow> page" where
  "showResults s = s\<lparr>resultsHidden := False\<rparr>"

definition hideResults :: "page \<Rightarrow> page" where
  "hideResults s = s\<lparr>resultsHidden := True\<rparr>"

definition showFallbackData :: "page \<Rightarrow> page" where
  "showFallbackData s = s\<lparr>fallbackHidden := False\<rparr>"

definition hideFallbackData :: "page \<Rightarrow> page" where
  "hideFallbackData s = s\<lparr>fallbackHidden := True\<rparr>"

definition disableForm :: "bool \<Rightarrow> page \<Rightarrow> page" where
  "disableForm disabled s = s\<lparr>formDisabled := disabled\<rparr>"

definition updateOnlineStatusIndicator :: "page \<Rightarrow> page" where
  "updateOnlineStatusIndicator s = s\<lparr>onlineIndicator := isOnline s\<rparr>"

text \<open>
  A JavaScript error value, with the two properties the script reads. A timeout is the
  rejection of \<^verbatim>\<open>fetch\<close> with the name \<^verbatim>\<open>AbortError\<close>, raised when the timer of
  \<^verbatim>\<open>CONFIG.TIMEOUT\<close> milliseconds aborts the request.
\<close>

datatype js_error = JsError (err_name: string) (err_message: string)

text \<open>
  \<^verbatim>\<open>displayResults\<close> empties the table body and builds a row for every entry of the
  table whose code is a target currency other than the base currency.
  \<^verbatim>\<open>createTableRow\<close> calls \<^verbatim>\<open>rate.toFixed(4)\<close> on the entry: on a number this gives
  text, on \<^verbatim>\<open>null\<close> it throws a \<^verbatim>\<open>TypeError\<close>, which leaves \<^verbatim>\<open>displayResults\<close> with
  the body partly built and the results still hidden. Without a throw the results are
  shown.
\<close>

definition displayResults ::
  "rates \<Rightarrow> string \<Rightarrow> changes \<Rightarrow> page \<Rightarrow> (js_error \<times> page) + page" where
  "displayResults table baseCurrency changes s =
     (if list_ex (\<lambda>currency. currency \<noteq> baseCurrency \<and> table currency = Some Null)
           TARGET_CURRENCIES
      then Inl (JsError ''TypeError'' ''Cannot read properties of null (reading 'toFixed')'',
                s\<lparr>displayed := None\<rparr>)
      else Inr (showResults (s\<lparr>displayed := Some (table, baseCurrency, changes)\<rparr>)))"

section \<open>The auto-refresh timer\<close>

text \<open>
  An interval identifier is a positive integer, so it is truthy; \<^verbatim>\<open>null\<close> is not.
\<close>

definition truthy_id :: "nat option \<Rightarrow> bool" where
  "truthy_id v = (case v of None \<Rightarrow> False | Some i \<Rightarrow> i \<noteq> 0)"

definition clearInterval :: "nat \<Rightarrow> page \<Rightarrow> page" where
  "clearInterval i s = s\<lparr>intervals := removeAll i (intervals s)\<rparr>"

definition setInterval :: "page \<Rightarrow> nat \<times> page" where
  "setInterval s =
     (Suc (timerCounter s),
      s\<lparr>intervals := Suc (timerCounter s) # intervals s, timerCounter := Suc (timerCounter s)\<rparr>)"

definition startAutoRefresh :: "page \<Rightarrow> page" where
  "startAutoRefresh s =
     (let s1 = (if truthy_id (autoRefreshInterval s)
                then clearInterval (the (autoRefreshInterval s)) s else s);
          (i, s2) = setInterval s1
      in s2\<lparr>autoRefreshInterval := Some i\<rparr>)"

section \<open>What the network hands back\<close>

text \<open>
  The value of the \<^verbatim>\<open>rates\<close> property of a response body, as the text of the body
  gives it. A number of the body is its exact decimal value; an entry of a table and an
  element of an array is a number or \<^verbatim>\<open>null\<close>.
\<close>

datatype json_entry = JNumber rat | JNull

datatype rates_value =
    VNull
  | VBool bool
  | VNumber rat
  | VString string
  | VArray "json_entry list"
  | VObject "string \<rightharpoonup> json_entry"

text \<open>
  A parsed body: \<^verbatim>\<open>null\<close>; a value with no property \<^verbatim>\<open>rates\<close> (a boolean, a number,
  a string or an array); or an object, with its \<^verbatim>\<open>rates\<close> property when it has one.
\<close>

datatype json = JsonNull | JsonOther | JsonObject "rates_value option"

text \<open>\<^verbatim>\<open>response.json()\<close> resolves to the parsed body or rejects with a syntax error.\<close>

datatype body = BodyRejected js_error | BodyParsed json

text \<open>\<^verbatim>\<open>fetch\<close> rejects, or resolves to a response with a status and a body.\<close>

datatype fetch_result = FetchRejected js_error | FetchResolved nat body

definition response_ok :: "nat \<Rightarrow> bool" where
  "response_ok status = (200 \<le> status \<and> status \<le> 299)"

fun show_nat :: "nat \<Rightarrow> string" where
  "show_nat n =
     (if n < 10 then [''0123456789'' ! n]
      else show_nat (n div 10) @ [''0123456789'' ! (n mod 10)])"

text \<open>\<^verbatim>\<open>data.rates\<close>: reading a property of \<^verbatim>\<open>null\<close> throws a \<^verbatim>\<open>TypeError\<close>.\<close>

definition get_rates :: "json \<Rightarrow> js_error + rates_value option" where
  "get_rates data =
     (case data of
        JsonNull \<Rightarrow>
          Inl (JsError ''TypeError'' ''Cannot read properties of null (reading 'rates')'')
      | JsonOther \<Rightarrow> Inr None
      | JsonObject v \<Rightarrow> Inr v)"

definition truthy_value :: "rates_value option \<Rightarrow> bool" where
  "truthy_value v =
     (case v of
        None \<Rightarrow> False
      | Some VNull \<Rightarrow> False
      | Some (VBool b) \<Rightarrow> b
      | Some (VNumber r) \<Rightarrow> truthy (Some (Rate (double_of r)))
      | Some (VString str) \<Rightarrow> str \<noteq> []
      | Some (VArray xs) \<Rightarrow> True
      | Some (VObject m) \<Rightarrow> True)"

definition typeof :: "rates_value option \<Rightarrow> string" where
  "typeof v =
     (case v of
        None \<Rightarrow> ''undefined''
      | Some VNull \<Rightarrow> ''object''
      | Some (VBool b) \<Rightarrow> ''boolean''
      | Some (VNumber r) \<Rightarrow> ''number''
      | Some (VString str) \<Rightarrow> ''string''
      | Some (VArray xs) \<Rightarrow> ''object''
      | Some (VObject m) \<Rightarrow> ''object'')"

text \<open>
  \<^verbatim>\<open>JSON.parse\<close> turns a number of the body into the nearest double. The own
  properties of a value that passed the check, read as a rate table, are those of an
  object and, for an array, its elements under their indices.
\<close>

definition parse_entry :: "json_entry \<Rightarrow> entry" where
  "parse_entry j = (case j of JNumber r \<Rightarrow> Rate (double_of r) | JNull \<Rightarrow> Null)"

definition properties :: "rates_value option \<Rightarrow> rates" where
  "properties v =
     (case v of
        Some (VObject m) \<Rightarrow> (\<lambda>k. map_option parse_entry (m k))
      | Some (VArray xs) \<Rightarrow>
          (\<lambda>k. map_option parse_entry (map_of (zip (map show_nat [0..<length xs]) xs) k))
      | _ \<Rightarrow> Map.empty)"

section \<open>fetchExchangeRates\<close>

text \<open>
  \<^verbatim>\<open>handleFetchError\<close>. The status code shown is \<^verbatim>\<open>error.message.split(':')[1]\<close>.
  \<^verbatim>\<open>Object.keys(AppState.previousRates).length > 0\<close> holds when the store is not empty.
\<close>

definition split_colon_1 :: "string \<Rightarrow> string" where
  "split_colon_1 msg =
     takeWhile (\<lambda>ch. ch \<noteq> CHR '':'') (drop 1 (dropWhile (\<lambda>ch. ch \<noteq> CHR '':'') msg))"

definition handleFetchError :: "js_error \<Rightarrow> page \<Rightarrow> page" where
  "handleFetchError error s =
     (let msg =
            (if err_name error = ''AbortError'' then
               ''Request timeout. Please check your internet connection.''
             else if take 10 (err_message error) = ''API_ERROR:'' then
               ''Service unavailable (Error '' @ split_colon_1 (err_message error)
                 @ ''). Please try again later.''
             else if err_message error = ''INVALID_RESPONSE'' then
               ''Invalid response from server. Please try again.''
             else if \<not> isOnline s then
               ''No internet connection. Please check your network settings.''
             else ''An unexpected error occurred.'');
          s1 = showError msg s
      in if previousRates s1 \<noteq> Map.empty then showFallbackData s1 else s1)"

text \<open>
  The function returns no value; \<open>outcome\<close> records the path a call took: the early
  return under the busy flag, the end of the \<^verbatim>\<open>try\<close> block with the changes it
  displayed, or the \<^verbatim>\<open>catch\<close> block with the error it caught.
\<close>

datatype outcome = Skipped | Completed changes | Failed js_error

text \<open>
  The synchronous start of a call, up to the \<^verbatim>\<open>await\<close> of \<^verbatim>\<open>fetch\<close>: the busy guard,
  the capture of the base currency, the busy flag and the display changes. It yields
  the URL requested, or nothing when the call returns at the guard.
\<close>

definition fetch_start :: "page \<Rightarrow> string option \<times> page" where
  "fetch_start s =
     (if isFetching s then (None, s)
      else
        (Some (API_BASE_URL @ ''/latest?from='' @ currentBaseCurrency s),
         disableForm True (hideFallbackData (hideResults (hideError (showLoading
           (s\<lparr>isFetching := True\<rparr>)))))))"

text \<open>
  The \<^verbatim>\<open>try\<close> block after the request was sent, given what \<^verbatim>\<open>fetch\<close> and
  \<^verbatim>\<open>response.json()\<close> hand back and the time \<^verbatim>\<open>new Date()\<close> reads. A \<^verbatim>\<open>throw\<close> or a
  rejected \<^verbatim>\<open>await\<close> leaves the block with the error and the state reached so far.
\<close>

definition fetch_try ::
  "string \<Rightarrow> fetch_result \<Rightarrow> nat \<Rightarrow> page \<Rightarrow> (js_error \<times> page) + (changes \<times> page)" where
  "fetch_try baseCurrency result now s =
     (case result of
        FetchRejected e \<Rightarrow> Inl (e, s)
      | FetchResolved status b \<Rightarrow>
          if \<not> response_ok status then
            Inl (JsError ''Error'' (''API_ERROR:'' @ show_nat status), s)
          else
            (case b of
               BodyRejected e \<Rightarrow> Inl (e, s)
             | BodyParsed data \<Rightarrow>
                 (case get_rates data of
                    Inl e \<Rightarrow> Inl (e, s)
                  | Inr v \<Rightarrow>
                      if \<not> truthy_value v \<or> typeof v \<noteq> ''object'' then
                        Inl (JsError ''Error'' ''INVALID_RESPONSE'', s)
                      else
                        (let (changes, s1) =
                               calculateRealTimeChanges (properties v) baseCurrency s;
                             s2 = s1\<lparr>lastSuccessfulUpdate := Some now, isOnline := True,
                                     currentRates := properties v\<rparr>
                         in case displayResults (properties v) baseCurrency changes s2 of
                              Inl (e, s3) \<Rightarrow> Inl (e, s3)
                            | Inr s3 \<Rightarrow>
                                Inr (changes,
                                     if \<not> truthy_id (autoRefreshInterval s3)
                                     then startAutoRefresh s3 else s3)))))"

text \<open>The \<^verbatim>\<open>finally\<close> block.\<close>

definition fetch_finally :: "page \<Rightarrow> page" where
  "fetch_finally s =
     updateOnlineStatusIndicator (disableForm False (hideLoading (s\<lparr>isFetching := False\<rparr>)))"

text \<open>
  The rest of a call once the response is known: the \<^verbatim>\<open>try\<close> block, the \<^verbatim>\<open>catch\<close>
  block when it threw, and the \<^verbatim>\<open>finally\<close> block in both cases. Between the start and
  this step the page may have handled other events, so the step takes the state as it
  is then, and the base currency the call captured at its start.
\<close>

definition fetch_resume :: "string \<Rightarrow> fetch_result \<Rightarrow> nat \<Rightarrow> page \<Rightarrow> outcome \<times> page" where
  "fetch_resume baseCurrency result now s =
     (case fetch_try baseCurrency result now s of
        Inl (e, s1) \<Rightarrow> (Failed e, fetch_finally (handleFetchError e s1))
      | Inr (changes, s1) \<Rightarrow> (Completed changes, fetch_finally s1))"

text \<open>A whole call of \<^verbatim>\<open>fetchExchangeRates\<close> with no other event in between.\<close>

definition fetchExchangeRates :: "fetch_result \<Rightarrow> nat \<Rightarrow> page \<Rightarrow> outcome \<times> page" where
  "fetchExchangeRates result now s =
     (case fetch_start s of
        (None, s1) \<Rightarrow> (Skipped, s1)
      | (Some url, s1) \<Rightarrow> fetch_resume (currentBaseCurrency s) result now s1)"

text \<open>
  The callback \<^verbatim>\<open>startAutoRefresh\<close> gives to \<^verbatim>\<open>setInterval\<close>, run at each tick of the
  timer: it calls \<^verbatim>\<open>fetchExchangeRates\<close>, which runs up to its \<^verbatim>\<open>await\<close>, or does
  nothing. It yields the URL requested, if any.
\<close>

definition auto_refresh_tick :: "page \<Rightarrow> string option \<times> page" where
  "auto_refresh_tick s =
     (if isOnline s \<and> \<not> isFetching s then fetch_start s else (None, s))"

section \<open>The service worker\<close>

text \<open>
  The service worker (\<^verbatim>\<open>sw.js\<close>) keeps two named caches in the cache storage of the
  origin: \<^verbatim>\<open>CACHE_NAME\<close> for the static assets and \<^verbatim>\<open>API_CACHE_NAME\<close> for the
  responses of the rate service. A URL is the string the source writes: the relative
  URLs of \<^verbatim>\<open>STATIC_ASSETS\<close> stand for those of the page's own origin. The cache
  storage is the list of its named caches in the order of their creation, the order in
  which \<^verbatim>\<open>caches.match\<close> searches them and \<^verbatim>\<open>caches.keys\<close> lists them. A cache maps
  the URL of a \<^verbatim>\<open>GET\<close> request to the response stored for it. A response is its
  status and its body; headers are not modelled.
\<close>

definition CACHE_NAME :: string where
  "CACHE_NAME = ''currency-app-v1.0.0''"

definition API_CACHE_NAME :: string where
  "API_CACHE_NAME = ''currency-api-cache-v1''"

definition STATIC_ASSETS :: "string list" where
  "STATIC_ASSETS =
     [''/'', ''/index.html'', ''/style.css'', ''/script.js'',
      ''https://api.frankfurter.app/latest?from=EUR'']"

record request =
  req_method :: string
  req_url :: string

record response =
  resp_status :: nat
  resp_body :: string

type_synonym cache = "string \<rightharpoonup> response"

type_synonym cache_storage = "(string \<times> cache) list"

text \<open>\<^verbatim>\<open>String.prototype.includes\<close>: the needle occurs somewhere in the string.\<close>

fun includes_str :: "string \<Rightarrow> string \<Rightarrow> bool" where
  "includes_str [] needle = (needle = [])"
| "includes_str (ch # rest) needle =
     (take (length needle) (ch # rest) = needle \<or> includes_str rest needle)"

text \<open>
  \<^verbatim>\<open>cache.match\<close> and \<^verbatim>\<open>cache.put\<close>. Only a \<^verbatim>\<open>GET\<close> request matches an entry.
  \<^verbatim>\<open>put\<close> rejects a request of another method and a response of status 206, and
  stores nothing then.
\<close>

definition cache_match :: "request \<Rightarrow> cache \<Rightarrow> response option" where
  "cache_match request c = (if req_method request = ''GET'' then c (req_url request) else None)"

definition cache_put :: "request \<Rightarrow> response \<Rightarrow> cache \<Rightarrow> cache" where
  "cache_put request resp c =
     (if req_method request = ''GET'' \<and> resp_status resp \<noteq> 206
      then c(req_url request \<mapsto> resp) else c)"

text \<open>
  \<^verbatim>\<open>caches.open\<close> creates the named cache, empty, after the existing ones when there is
  none of that name. \<open>cache_of\<close> reads a named cache (empty when there is none), and
  \<open>update_cache\<close> applies a change to it. \<^verbatim>\<open>caches.match\<close> answers from the first cache,
  in the order of creation, that matches the request. \<^verbatim>\<open>caches.delete\<close> removes a cache.
\<close>

definition caches_open :: "string \<Rightarrow> cache_storage \<Rightarrow> cache_storage" where
  "caches_open name cs = (if name \<in> set (map fst cs) then cs else cs @ [(name, Map.empty)])"

definition cache_of :: "string \<Rightarrow> cache_storage \<Rightarrow> cache" where
  "cache_of name cs = (case map_of cs name of None \<Rightarrow> Map.empty | Some c \<Rightarrow> c)"

definition update_cache :: "string \<Rightarrow> (cache \<Rightarrow> cache) \<Rightarrow> cache_storage \<Rightarrow> cache_storage" where
  "update_cache name f cs = map (\<lambda>(n, c). if n = name then (n, f c) else (n, c)) cs"

fun caches_match :: "request \<Rightarrow> cache_storage \<Rightarrow> response option" where
  "caches_match request [] = None"
| "caches_match request ((n, c) # cs) =
     (case cache_match request c of
        Some resp \<Rightarrow> Some resp
      | None \<Rightarrow> caches_match request cs)"

definition caches_delete :: "string \<Rightarrow> cache_storage \<Rightarrow> cache_storage" where
  "caches_delete name cs = filter (\<lambda>(n, c). n \<noteq> name) cs"

text \<open>
  The \<^verbatim>\<open>install\<close> handler opens the static cache and calls
  \<^verbatim>\<open>cache.addAll(STATIC_ASSETS)\<close>, which requests every asset and stores the responses
  only when each request succeeded with a status from 200 to 299 other than 206;
  otherwise it rejects and stores nothing. \<open>net\<close> is what the network answers for a
  URL at that time (\<open>None\<close>: the request fails).
\<close>

definition add_ok :: "(string \<Rightarrow> response option) \<Rightarrow> string \<Rightarrow> bool" where
  "add_ok net u =
     (case net u of
        None \<Rightarrow> False
      | Some resp \<Rightarrow> response_ok (resp_status resp) \<and> resp_status resp \<noteq> 206)"

definition addAll :: "string list \<Rightarrow> (string \<Rightarrow> response option) \<Rightarrow> cache \<Rightarrow> cache" where
  "addAll urls net c =
     (if list_all (add_ok net) urls
      then fold (\<lambda>u. cache_put \<lparr>req_method = ''GET'', req_url = u\<rparr> (the (net u))) urls c
      else c)"

definition on_install :: "(string \<Rightarrow> response option) \<Rightarrow> cache_storage \<Rightarrow> cache_storage" where
  "on_install net cs =
     update_cache CACHE_NAME (addAll STATIC_ASSETS net) (caches_open CACHE_NAME cs)"

text \<open>
  The \<^verbatim>\<open>activate\<close> handler deletes every cache whose name is neither of the two.
\<close>

definition on_activate :: "cache_storage \<Rightarrow> cache_storage" where
  "on_activate cs =
     fold (\<lambda>cacheName acc.
             if cacheName \<noteq> CACHE_NAME \<and> cacheName \<noteq> API_CACHE_NAME
             then caches_delete cacheName acc else acc)
          (map fst cs) cs"

text \<open>
  The \<^verbatim>\<open>fetch\<close> handler. \<open>net\<close> is the outcome of the live request, should the handler
  make it: a response, or \<open>None\<close> when it fails. The handler answers the page with a
  response, or with a network error when the promise given to \<^verbatim>\<open>respondWith\<close> rejects
  or resolves to \<^verbatim>\<open>undefined\<close>. In the API branch it also starts, without waiting for
  it, the storing of a copy of the live response: \<open>on_fetch\<close> yields the answer and the
  storing it started, if any, and reads the storage without changing it.
\<close>

datatype answer = Responded response | NetworkError

definition on_fetch ::
  "request \<Rightarrow> response option \<Rightarrow> cache_storage \<Rightarrow> answer \<times> (request \<times> response) option" where
  "on_fetch request net cs =
     (if includes_str (req_url request) ''frankfurter.app'' then
        (case net of
           Some resp \<Rightarrow> (Responded resp, Some (request, resp))
         | None \<Rightarrow>
             (case caches_match request cs of
                Some cached \<Rightarrow> (Responded cached, None)
              | None \<Rightarrow> (NetworkError, None)))
      else
        (case caches_match request cs of
           Some cached \<Rightarrow> (Responded cached, None)
         | None \<Rightarrow>
             (case net of
                Some resp \<Rightarrow> (Responded resp, None)
              | None \<Rightarrow> (NetworkError, None))))"

text \<open>
  The storing the API branch starts:
  \<^verbatim>\<open>caches.open(API_CACHE_NAME).then((cache) => { cache.put(request, responseClone); })\<close>.
  It runs to its end at some later time, or never when the worker is stopped first.
\<close>

definition api_store :: "request \<Rightarrow> response \<Rightarrow> cache_storage \<Rightarrow> cache_storage" where
  "api_store request resp cs =
     update_cache API_CACHE_NAME (cache_put request resp) (caches_open API_CACHE_NAME cs)"

text \<open>
  The events of the worker, and a run of the worker over a list of events. A fetch
  event leaves the storage as it is; \<open>Stored\<close> is the later moment at which the storing
  started by a fetch event of an API request has run to its end.
\<close>

datatype sw_event =
    Install "string \<Rightarrow> response option"
  | Activate
  | Fetch request "response option"
  | Stored request response

fun sw_step :: "sw_event \<Rightarrow> cache_storage \<Rightarrow> cache_storage" where
  "sw_step (Install net) cs = on_install net cs"
| "sw_step Activate cs = on_activate cs"
| "sw_step (Fetch request net) cs = cs"
| "sw_step (Stored request resp) cs =
     (if includes_str (req_url request) ''frankfurter.app''
      then api_store request resp cs else cs)"

definition sw_run :: "sw_event list \<Rightarrow> cache_storage \<Rightarrow> cache_storage" where
  "sw_run events cs = fold sw_step events cs"

section \<open>Sample data\<close>

text \<open>
  Two tables for the base EUR, and the application state that has stored the first.
  From the first to the second USD rises by 50 percent, GBP stays, AUD rises from 3 to
  4, and JPY rises from 100000 to 100001, a change the script computes as the double
  \<^verbatim>\<open>0.001\<close>. The rates of CNY are the doubles of \<^verbatim>\<open>127.00873\<close> and
  \<^verbatim>\<open>127.0100000873\<close>. TRY is no target currency, the tables list the base currency
  itself (as the sample table of \<^verbatim>\<open>loadFallbackData\<close> does), and the stored rate of CHF
  is zero.
\<close>

definition sample_previous :: rates where
  "sample_previous =
     [''USD'' \<mapsto> Rate (Num 1), ''GBP'' \<mapsto> Rate (Num (1 / 2)), ''EUR'' \<mapsto> Rate (Num 1),
      ''TRY'' \<mapsto> Rate (Num 32), ''JPY'' \<mapsto> Rate (Num 100000), ''CHF'' \<mapsto> Rate (Num 0),
      ''AUD'' \<mapsto> Rate (Num 3),
      ''CNY'' \<mapsto> Rate (Num (8937444829699999 / 70368744177664))]"

definition sample_current :: rates where
  "sample_current =
     [''USD'' \<mapsto> Rate (Num (3 / 2)), ''GBP'' \<mapsto> Rate (Num (1 / 2)), ''EUR'' \<mapsto> Rate (Num 1),
      ''TRY'' \<mapsto> Rate (Num 48), ''JPY'' \<mapsto> Rate (Num 100001), ''CHF'' \<mapsto> Rate (Num 1),
      ''AUD'' \<mapsto> Rate (Num 4),
      ''CNY'' \<mapsto> Rate (Num (1117191775518537 / 8796093022208))]"

definition sample_state :: app_state where
  "sample_state = AppState_initial\<lparr>previousRates := [''EUR'' \<mapsto> sample_previous]\<rparr>"

text \<open>
  A page that has seen \<open>sample_previous\<close> for the base EUR, is idle and online, and
  whose auto-refresh timer runs.
\<close>

definition sample_page :: page where
  "sample_page =
     \<lparr>previousRates = [''EUR'' \<mapsto> sample_previous], currentRates = sample_previous,
      currentBaseCurrency = ''EUR'', isOnline = True, lastSuccessfulUpdate = Some 1000,
      autoRefreshInterval = Some 1, isFetching = False,
      loadingHidden = True, errorHidden = True, errorMessage = [],
      resultsHidden = False, fallbackHidden = True, formDisabled = False,
      displayed = Some (sample_previous, ''EUR'', Map.empty), onlineIndicator = True,
      intervals = [1], timerCounter = 1\<rparr>"

text \<open>
  The responses of the network used below: the abort of the timeout; the bodies
  \<^verbatim>\<open>{}\<close>, \<^verbatim>\<open>{"rates": []}\<close> and \<^verbatim>\<open>null\<close>; the body
  \<^verbatim>\<open>{"rates": {"USD": 1.5, "GBP": 0.5}}\<close>; and the body
  \<^verbatim>\<open>{"rates": {"USD": null, "GBP": 0.5}}\<close>.
\<close>

definition timed_out :: fetch_result where
  "timed_out = FetchRejected (JsError ''AbortError'' ''The user aborted a request.'')"

definition empty_object_body :: fetch_result where
  "empty_object_body = FetchResolved 200 (BodyParsed (JsonObject None))"

definition empty_array_rates :: fetch_result where
  "empty_array_rates = FetchResolved 200 (BodyParsed (JsonObject (Some (VArray []))))"

definition null_body :: fetch_result where
  "null_body = FetchResolved 200 (BodyParsed JsonNull)"

definition fresh_table :: "string \<rightharpoonup> json_entry" where
  "fresh_table = [''USD'' \<mapsto> JNumber (3 / 2), ''GBP'' \<mapsto> JNumber (1 / 2)]"

definition fresh_rates :: fetch_result where
  "fresh_rates = FetchResolved 200 (BodyParsed (JsonObject (Some (VObject fresh_table))))"

definition null_rate_table :: "string \<rightharpoonup> json_entry" where
  "null_rate_table = [''USD'' \<mapsto> JNull, ''GBP'' \<mapsto> JNumber (1 / 2)]"

definition null_rate :: fetch_result where
  "null_rate = FetchResolved 200 (BodyParsed (JsonObject (Some (VObject null_rate_table))))"

text \<open>
  Requests and responses of the service worker: the request for the rates of the base
  EUR, whose URL is also listed in \<^verbatim>\<open>STATIC_ASSETS\<close>, one for the base USD, the response
  the network gives to every asset at install time, and two later responses of the
  rate service.
\<close>

definition eur_request :: request where
  "eur_request =
     \<lparr>req_method = ''GET'', req_url = ''https://api.frankfurter.app/latest?from=EUR''\<rparr>"

definition usd_request :: request where
  "usd_request =
     \<lparr>req_method = ''GET'', req_url = ''https://api.frankfurter.app/latest?from=USD''\<rparr>"

definition install_response :: response where
  "install_response = \<lparr>resp_status = 200, resp_body = ''at install''\<rparr>"

definition live_response :: response where
  "live_response = \<lparr>resp_status = 200, resp_body = ''live''\<rparr>"

definition later_response :: response where
  "later_response = \<lparr>resp_status = 200, resp_body = ''later''\<rparr>"

text \<open>
  The worker installs with every asset fetched and activates. On a first visit the page
  then fetches the rates of a base currency with the network up, and the storing of
  the response runs to its end.
\<close>

definition installed :: "sw_event list" where
  "installed = [Install (\<lambda>u. Some install_response), Activate]"

definition first_visit :: "request \<Rightarrow> sw_event list" where
  "first_visit request =
     installed @ [Fetch request (Some live_response), Stored request live_response]"

section \<open>Properties of calculateRealTimeChanges\<close>

subsection \<open>The loop over the target currencies\<close>

lemma truthy_Rate:
  "truthy (Some (Rate a)) \<longleftrightarrow> a \<noteq> Num 0 \<and> a \<noteq> NaN"
  by (cases a) (simp_all add: truthy_def)


lemma change_step_other:
  "c \<noteq> currency \<Longrightarrow> change_step cur previous baseCurrency currency changes c = changes c"
  by (simp add: change_step_def Let_def)

lemma change_step_skip:
  "\<not> (currency \<noteq> baseCurrency \<and> truthy (cur currency) \<and> truthy (previous currency)) \<Longrightarrow>
   change_step cur previous baseCurrency currency changes = changes"
  by (auto simp add: change_step_def)

lemma change_step_same:
  assumes "currency \<noteq> baseCurrency" "cur currency = Some (Rate a)"
    "previous currency = Some (Rate b)" "a \<noteq> Num 0" "a \<noteq> NaN" "b \<noteq> Num 0" "b \<noteq> NaN"
  shows "change_step cur previous baseCurrency currency changes currency =
           Some (if js_greater (js_abs (js_times (js_divide (js_minus a b) b) (Num 100)))
                      (double_of (1 / 1000))
                 then js_times (js_divide (js_minus a b) b) (Num 100) else Num 0)"
  using assms
  by (simp add: change_step_def truthy_Rate ToNumber_def Let_def)

lemma fold_change_step_excluded:
  "\<not> (c \<in> set cs \<and> c \<noteq> baseCurrency \<and> truthy (cur c) \<and> truthy (previous c)) \<Longrightarrow>
   fold (change_step cur previous baseCurrency) cs changes c = changes c"
proof (induction cs arbitrary: changes)
  case Nil
  then show ?case by simp
next
  case (Cons x xs)
  have tail: "\<not> (c \<in> set xs \<and> c \<noteq> baseCurrency \<and> truthy (cur c) \<and> truthy (previous c))"
    using Cons.prems by auto
  have "change_step cur previous baseCurrency x changes c = changes c"
  proof (cases "c = x")
    case True
    then show ?thesis using Cons.prems by (simp add: change_step_skip)
  next
    case False
    then show ?thesis by (simp add: change_step_other)
  qed
  then show ?case using Cons.IH [OF tail] by simp
qed

lemma fold_change_step_included:
  assumes "c \<in> set cs" "c \<noteq> baseCurrency" "cur c = Some (Rate a)"
    "previous c = Some (Rate b)" "a \<noteq> Num 0" "a \<noteq> NaN" "b \<noteq> Num 0" "b \<noteq> NaN"
  shows "fold (change_step cur previous baseCurrency) cs changes c =
           Some (if js_greater (js_abs (js_times (js_divide (js_minus a b) b) (Num 100)))
                      (double_of (1 / 1000))
                 then js_times (js_divide (js_minus a b) b) (Num 100) else Num 0)"
  using assms(1)
proof (induction cs arbitrary: changes)
  case Nil
  then show ?case by simp
next
  case (Cons x xs)
  show ?case
  proof (cases "c \<in> set xs")
    case True
    then show ?thesis using Cons.IH by simp
  next
    case False
    then have "x = c" using Cons.prems by simp
    moreover have "fold (change_step cur previous baseCurrency) xs
        (change_step cur previous baseCurrency c changes) c =
        change_step cur previous baseCurrency c changes c"
      using False by (simp add: fold_change_step_excluded)
    ultimately show ?thesis
      using assms(2-8) by (simp add: change_step_same [where a = a and b = b])
  qed
qed

lemma calculateRealTimeChanges_included:
  assumes "previousRates s baseCurrency = Some previous"
    "c \<in> set TARGET_CURRENCIES" "c \<noteq> baseCurrency" "cur c = Some (Rate a)"
    "previous c = Some (Rate b)" "a \<noteq> Num 0" "a \<noteq> NaN" "b \<noteq> Num 0" "b \<noteq> NaN"
  shows "fst (calculateRealTimeChanges cur baseCurrency s) c =
           Some (if js_greater (js_abs (js_times (js_divide (js_minus a b) b) (Num 100)))
                      (double_of (1 / 1000))
                 then js_times (js_divide (js_minus a b) b) (Num 100) else Num 0)"
proof -
  have "fold (change_step cur previous baseCurrency) TARGET_CURRENCIES Map.empty c =
      Some (if js_greater (js_abs (js_times (js_divide (js_minus a b) b) (Num 100)))
                 (double_of (1 / 1000))
            then js_times (js_divide (js_minus a b) b) (Num 100) else Num 0)"
    by (rule fold_change_step_included [where a = a and b = b]) (use assms in simp_all)
  with assms(1) show ?thesis by (simp add: calculateRealTimeChanges_def)
qed

lemma calculateRealTimeChanges_excluded:
  assumes "previousRates s baseCurrency = Some previous"
    "\<not> (c \<in> set TARGET_CURRENCIES \<and> c \<noteq> baseCurrency
        \<and> truthy (cur c) \<and> truthy (previous c))"
  shows "fst (calculateRealTimeChanges cur baseCurrency s) c = None"
proof -
  have "fold (change_step cur previous baseCurrency) TARGET_CURRENCIES Map.empty c = None"
    using assms(2) by (simp add: fold_change_step_excluded)
  with assms(1) show ?thesis by (simp add: calculateRealTimeChanges_def)
qed

lemma calculateRealTimeChanges_state:
  "snd (calculateRealTimeChanges cur baseCurrency s) =
     s\<lparr>previousRates := (previousRates s)(baseCurrency \<mapsto> cur)\<rparr>"
  by (simp add: calculateRealTimeChanges_def Let_def)

lemma sample_state_previous:
  "previousRates sample_state ''EUR'' = Some sample_previous"
  by (simp add: sample_state_def)

subsection \<open>The arithmetic of the sample tables\<close>

text \<open>
  The literal \<^verbatim>\<open>0.001\<close> is a double slightly above one thousandth. The changes of the
  sample tables, as the doubles the script computes: 50 for USD, 0 for GBP, the double
  \<^verbatim>\<open>0.001\<close> itself for JPY and for CNY, and \<^verbatim>\<open>33.33333333333333\<close> for AUD, which is
  not the third of 100.
\<close>

lemma threshold:
  "double_of (1 / 1000) = Num (1152921504606847 / 1152921504606846976)"
  by code_simp

lemma usd_change:
  "js_times (js_divide (js_minus (Num (3 / 2)) (Num 1)) (Num 1)) (Num 100) = Num 50"
  by code_simp

lemma gbp_change:
  "js_times (js_divide (js_minus (Num (1 / 2)) (Num (1 / 2))) (Num (1 / 2))) (Num 100) = Num 0"
  by code_simp

lemma jpy_change:
  "js_times (js_divide (js_minus (Num 100001) (Num 100000)) (Num 100000)) (Num 100)
     = Num (1152921504606847 / 1152921504606846976)"
  by code_simp

lemma aud_change:
  "js_times (js_divide (js_minus (Num 4) (Num 3)) (Num 3)) (Num 100)
     = Num (2345624805922133 / 70368744177664)"
  by code_simp

lemma cny_change:
  "js_times
     (js_divide
        (js_minus (Num (1117191775518537 / 8796093022208))
           (Num (8937444829699999 / 70368744177664)))
        (Num (8937444829699999 / 70368744177664)))
     (Num 100)
     = Num (1152921504606847 / 1152921504606846976)"
  by code_simp


subsection \<open>The value of each change\<close>

text \<open>
  C1, as the code has it. When a table is stored for the base currency, a currency of
  \<^verbatim>\<open>CONFIG.TARGET_CURRENCIES\<close> other than the base currency, whose rate is a number
  other than zero and \<^verbatim>\<open>NaN\<close> in the current and in the stored table, is mapped to
  \<^verbatim>\<open>((current - previous) / previous) * 100\<close>, each operation rounded to a double, when
  the magnitude of that double is greater than the double \<^verbatim>\<open>0.001\<close>, and to \<open>0\<close>
  otherwise. Every other currency code is absent from the change set: a code outside
  the target list, the base currency itself, and a code whose entry is missing or falsy
  in either table.
\<close>

theorem C1_change_of_target_currency:
  assumes "previousRates s baseCurrency = Some previous"
  shows "(c \<in> set TARGET_CURRENCIES \<and> c \<noteq> baseCurrency
            \<and> cur c = Some (Rate a) \<and> a \<noteq> Num 0 \<and> a \<noteq> NaN
            \<and> previous c = Some (Rate b) \<and> b \<noteq> Num 0 \<and> b \<noteq> NaN \<longrightarrow>
            (js_greater (js_abs (js_times (js_divide (js_minus a b) b) (Num 100)))
               (double_of (1 / 1000)) \<longrightarrow>
               fst (calculateRealTimeChanges cur baseCurrency s) c
                 = Some (js_times (js_divide (js_minus a b) b) (Num 100)))
          \<and> (\<not> js_greater (js_abs (js_times (js_divide (js_minus a b) b) (Num 100)))
                 (double_of (1 / 1000)) \<longrightarrow>
               fst (calculateRealTimeChanges cur baseCurrency s) c = Some (Num 0)))
       \<and> (\<not> (c \<in> set TARGET_CURRENCIES \<and> c \<noteq> baseCurrency
              \<and> truthy (cur c) \<and> truthy (previous c)) \<longrightarrow>
            fst (calculateRealTimeChanges cur baseCurrency s) c = None)"
proof -
  have "fst (calculateRealTimeChanges cur baseCurrency s) c =
      Some (if js_greater (js_abs (js_times (js_divide (js_minus a b) b) (Num 100)))
                 (double_of (1 / 1000))
            then js_times (js_divide (js_minus a b) b) (Num 100) else Num 0)"
    if "c \<in> set TARGET_CURRENCIES" "c \<noteq> baseCurrency" "cur c = Some (Rate a)"
      "previous c = Some (Rate b)" "a \<noteq> Num 0" "a \<noteq> NaN" "b \<noteq> Num 0" "b \<noteq> NaN"
    by (rule calculateRealTimeChanges_included [where previous = previous])
      (use assms that in simp_all)
  moreover have "fst (calculateRealTimeChanges cur baseCurrency s) c = None"
    if "\<not> (c \<in> set TARGET_CURRENCIES \<and> c \<noteq> baseCurrency
          \<and> truthy (cur c) \<and> truthy (previous c))"
    by (rule calculateRealTimeChanges_excluded [where previous = previous and cur = cur])
      (use assms that in simp_all)
  ultimately show ?thesis by simp
qed

theorem C1_change_of_target_currency_witness:
  "previousRates sample_state ''EUR'' = Some sample_previous
   \<and> fst (calculateRealTimeChanges sample_current ''EUR'' sample_state) ''USD''
       = Some (Num 50)
   \<and> fst (calculateRealTimeChanges sample_current ''EUR'' sample_state) ''GBP''
       = Some (Num 0)
   \<and> fst (calculateRealTimeChanges sample_current ''EUR'' sample_state) ''JPY''
       = Some (Num 0)
   \<and> fst (calculateRealTimeChanges sample_current ''EUR'' sample_state) ''AUD''
       = Some (Num (2345624805922133 / 70368744177664))
   \<and> fst (calculateRealTimeChanges sample_current ''EUR'' sample_state) ''CNY''
       = Some (Num 0)
   \<and> fst (calculateRealTimeChanges sample_current ''EUR'' sample_state) ''CAD'' = None"
proof -
  have usd: "fst (calculateRealTimeChanges sample_current ''EUR'' sample_state) ''USD''
      = Some (Num 50)"
    using C1_change_of_target_currency
      [OF sample_state_previous, of "''USD''" sample_current "Num (3 / 2)" "Num 1"]
    unfolding usd_change threshold
    by (simp add: TARGET_CURRENCIES_def sample_current_def sample_previous_def)
  have gbp: "fst (calculateRealTimeChanges sample_current ''EUR'' sample_state) ''GBP''
      = Some (Num 0)"
    using C1_change_of_target_currency
      [OF sample_state_previous, of "''GBP''" sample_current "Num (1 / 2)" "Num (1 / 2)"]
    unfolding gbp_change threshold
    by (simp add: TARGET_CURRENCIES_def sample_current_def sample_previous_def)
  have jpy: "fst (calculateRealTimeChanges sample_current ''EUR'' sample_state) ''JPY''
      = Some (Num 0)"
    using C1_change_of_target_currency
      [OF sample_state_previous, of "''JPY''" sample_current "Num 100001" "Num 100000"]
    unfolding jpy_change threshold
    by (simp add: TARGET_CURRENCIES_def sample_current_def sample_previous_def)
  have aud: "fst (calculateRealTimeChanges sample_current ''EUR'' sample_state) ''AUD''
      = Some (Num (2345624805922133 / 70368744177664))"
    using C1_change_of_target_currency
      [OF sample_state_previous, of "''AUD''" sample_current "Num 4" "Num 3"]
    unfolding aud_change threshold
    by (simp add: TARGET_CURRENCIES_def sample_current_def sample_previous_def)
  have cny: "fst (calculateRealTimeChanges sample_current ''EUR'' sample_state) ''CNY''
      = Some (Num 0)"
    using C1_change_of_target_currency
      [OF sample_state_previous, of "''CNY''" sample_current
        "Num (1117191775518537 / 8796093022208)" "Num (8937444829699999 / 70368744177664)"]
    unfolding cny_change threshold
    by (simp add: TARGET_CURRENCIES_def sample_current_def sample_previous_def)
  have cad: "fst (calculateRealTimeChanges sample_current ''EUR'' sample_state) ''CAD''
      = None"
    using C1_change_of_target_currency
      [OF sample_state_previous, of "''CAD''" sample_current NaN NaN]
    by (simp add: truthy_def sample_current_def sample_previous_def)
  from usd gbp jpy aud cny cad sample_state_previous show ?thesis by simp
qed

text \<open>
  The claim as the specification words it fails at three places. TRY is present in both
  tables with a change of 50 percent and EUR (the base) is present in both with no
  change, yet neither is in the change set; and JPY, whose change the script computes
  as the double \<^verbatim>\<open>0.001\<close> itself (not below it), is mapped to \<open>0\<close>, because the code
  keeps a change only when \<^verbatim>\<open>Math.abs(change) > 0.001\<close>.
\<close>

theorem C1_counterexample:
  "previousRates sample_state ''EUR'' = Some sample_previous
   \<and> sample_current ''TRY'' = Some (Rate (Num 48))
   \<and> sample_previous ''TRY'' = Some (Rate (Num 32))
   \<and> fst (calculateRealTimeChanges sample_current ''EUR'' sample_state) ''TRY'' = None
   \<and> sample_current ''EUR'' = Some (Rate (Num 1))
   \<and> sample_previous ''EUR'' = Some (Rate (Num 1))
   \<and> fst (calculateRealTimeChanges sample_current ''EUR'' sample_state) ''EUR'' = None
   \<and> sample_current ''JPY'' = Some (Rate (Num 100001))
   \<and> sample_previous ''JPY'' = Some (Rate (Num 100000))
   \<and> js_times (js_divide (js_minus (Num 100001) (Num 100000)) (Num 100000)) (Num 100)
       = double_of (1 / 1000)
   \<and> fst (calculateRealTimeChanges sample_current ''EUR'' sample_state) ''JPY''
       = Some (Num 0)"
proof -
  have tried: "fst (calculateRealTimeChanges sample_current ''EUR'' sample_state) ''TRY''
      = None"
    by (rule calculateRealTimeChanges_excluded [OF sample_state_previous])
      (simp add: TARGET_CURRENCIES_def)
  have eur: "fst (calculateRealTimeChanges sample_current ''EUR'' sample_state) ''EUR''
      = None"
    by (rule calculateRealTimeChanges_excluded [OF sample_state_previous]) simp
  have jpy: "fst (calculateRealTimeChanges sample_current ''EUR'' sample_state) ''JPY''
      = Some (Num 0)"
    using calculateRealTimeChanges_included
      [OF sample_state_previous, of "''JPY''" sample_current "Num 100001" "Num 100000"]
    unfolding jpy_change threshold
    by (simp add: TARGET_CURRENCIES_def sample_current_def sample_previous_def)
  from tried eur jpy show ?thesis
    unfolding jpy_change threshold
    by (simp add: sample_state_previous sample_current_def sample_previous_def)
qed

subsection \<open>No division by zero\<close>



subsection \<open>What the computation reads and writes\<close>

text \<open>
  C5, as the code has it. The change set returned by \<^verbatim>\<open>calculateRealTimeChanges\<close>
  is determined by the current table, the base currency and the table stored for that
  base currency in \<^verbatim>\<open>AppState.previousRates\<close> (it reads no other state); and the call
  writes the store: it replaces the entry of the base currency by the current table and
  leaves every other entry and every other field as it was.
\<close>

theorem C5_reads_and_writes_store_entry:
  "(previousRates s baseCurrency = previousRates s' baseCurrency \<longrightarrow>
      fst (calculateRealTimeChanges cur baseCurrency s)
        = fst (calculateRealTimeChanges cur baseCurrency s'))
   \<and> snd (calculateRealTimeChanges cur baseCurrency s)
        = s\<lparr>previousRates := (previousRates s)(baseCurrency \<mapsto> cur)\<rparr>"
  by (simp add: calculateRealTimeChanges_def Let_def)

theorem C5_reads_and_writes_store_entry_witness:
  "previousRates sample_state ''EUR''
     = previousRates (sample_state\<lparr>isFetching := True, isOnline := False\<rparr>) ''EUR''
   \<and> fst (calculateRealTimeChanges sample_current ''EUR'' sample_state)
       = fst (calculateRealTimeChanges sample_current ''EUR''
               (sample_state\<lparr>isFetching := True, isOnline := False\<rparr>))
   \<and> snd (calculateRealTimeChanges sample_current ''EUR'' sample_state)
       = sample_state\<lparr>previousRates := (previousRates sample_state)(''EUR'' \<mapsto> sample_current)\<rparr>"
  using C5_reads_and_writes_store_entry
    [of sample_state "''EUR''" "sample_state\<lparr>isFetching := True, isOnline := False\<rparr>"
      sample_current]
  by simp

text \<open>
  The computation is not pure. Called on the initial state, it stores the table it is
  given under the base currency; and the same two arguments give another result once
  the store holds a table: no change for USD at first, 50 percent after a call that
  stored \<open>sample_previous\<close>.
\<close>

theorem C5_counterexample:
  "previousRates AppState_initial ''EUR'' = None
   \<and> previousRates (snd (calculateRealTimeChanges sample_previous ''EUR'' AppState_initial))
        ''EUR'' = Some sample_previous
   \<and> fst (calculateRealTimeChanges sample_current ''EUR'' AppState_initial) ''USD'' = None
   \<and> fst (calculateRealTimeChanges sample_current ''EUR''
          (snd (calculateRealTimeChanges sample_previous ''EUR'' AppState_initial))) ''USD''
        = Some (Num 50)"
proof -
  have stored: "previousRates
      (snd (calculateRealTimeChanges sample_previous ''EUR'' AppState_initial)) ''EUR''
      = Some sample_previous"
    by (simp add: calculateRealTimeChanges_state)
  have first: "fst (calculateRealTimeChanges sample_current ''EUR'' AppState_initial) ''USD''
      = None"
    by (simp add: calculateRealTimeChanges_def AppState_initial_def)
  have second: "fst (calculateRealTimeChanges sample_current ''EUR''
      (snd (calculateRealTimeChanges sample_previous ''EUR'' AppState_initial))) ''USD''
      = Some (Num 50)"
    using calculateRealTimeChanges_included
      [OF stored, of "''USD''" sample_current "Num (3 / 2)" "Num 1"]
    unfolding usd_change threshold
    by (simp add: TARGET_CURRENCIES_def sample_current_def sample_previous_def)
  from stored first second show ?thesis
    by (simp add: AppState_initial_def)
qed

subsection \<open>First observation of a base currency\<close>

text \<open>
  C9. With no table stored for the base currency (the first observation of that base),
  the returned change set is empty, whatever the current table is.
\<close>

theorem C9_no_previous_empty_changes:
  "previousRates s baseCurrency = None \<Longrightarrow>
   fst (calculateRealTimeChanges cur baseCurrency s) = Map.empty"
  by (simp add: calculateRealTimeChanges_def)

theorem C9_no_previous_empty_changes_witness:
  "previousRates AppState_initial ''EUR'' = None
   \<and> fst (calculateRealTimeChanges sample_current ''EUR''
        AppState_initial) = Map.empty"
  using C9_no_previous_empty_changes
    [of AppState_initial "''EUR''" "sample_current"]
  by (simp add: AppState_initial_def)

section \<open>Properties of fetchExchangeRates\<close>

subsection \<open>The steps of a call\<close>

lemmas display_defs =
  showLoading_def hideLoading_def showError_def hideError_def showResults_def
  hideResults_def showFallbackData_def hideFallbackData_def disableForm_def
  updateOnlineStatusIndicator_def

lemma fetch_start_busy: "isFetching s \<Longrightarrow> fetch_start s = (None, s)"
  by (simp add: fetch_start_def)

lemma fetch_start_idle:
  "\<not> isFetching s \<Longrightarrow>
   fst (fetch_start s) = Some (API_BASE_URL @ ''/latest?from='' @ currentBaseCurrency s)
   \<and> isFetching (snd (fetch_start s))
   \<and> previousRates (snd (fetch_start s)) = previousRates s
   \<and> app_state.truncate (snd (fetch_start s)) = app_state.truncate (s\<lparr>isFetching := True\<rparr>)"
  by (simp add: fetch_start_def display_defs app_state.truncate_def)

lemma fetch_finally_app:
  "app_state.truncate (fetch_finally s) = app_state.truncate (s\<lparr>isFetching := False\<rparr>)"
  by (simp add: fetch_finally_def display_defs app_state.truncate_def)

lemma handleFetchError_app:
  "app_state.truncate (handleFetchError e s) = app_state.truncate s"
  by (simp add: handleFetchError_def display_defs app_state.truncate_def Let_def)

text \<open>
  The \<^verbatim>\<open>try\<close> block throws before the call of \<^verbatim>\<open>calculateRealTimeChanges\<close>, with the
  state as it found it, or inside \<^verbatim>\<open>displayResults\<close>, with the \<^verbatim>\<open>TypeError\<close> of
  \<^verbatim>\<open>rate.toFixed\<close>.
\<close>

lemma fetch_try_error_state:
  "fetch_try baseCurrency result now s = Inl (e, s1) \<Longrightarrow>
   s1 = s \<or> e = JsError ''TypeError'' ''Cannot read properties of null (reading 'toFixed')''"
  by (auto simp add: fetch_try_def displayResults_def Let_def case_prod_unfold
      split: fetch_result.splits body.splits sum.splits if_splits)

lemma fetch_resume_clears_busy:
  "\<not> isFetching (snd (fetch_resume baseCurrency result now s))"
  by (simp add: fetch_resume_def fetch_finally_def display_defs
      split: sum.splits prod.splits)

lemma fetch_resume_failed_app:
  assumes "fst (fetch_resume baseCurrency result now s) = Failed e"
    "e \<noteq> JsError ''TypeError'' ''Cannot read properties of null (reading 'toFixed')''"
  shows "app_state.truncate (snd (fetch_resume baseCurrency result now s))
           = app_state.truncate (s\<lparr>isFetching := False\<rparr>)"
proof (cases "fetch_try baseCurrency result now s")
  case (Inl a)
  obtain e1 s1 where a: "a = (e1, s1)" by (cases a)
  with Inl assms(1) have "e1 = e" by (simp add: fetch_resume_def)
  with Inl a assms(2) have "s1 = s" using fetch_try_error_state by blast
  with Inl a show ?thesis
    by (simp add: fetch_resume_def fetch_finally_def handleFetchError_def display_defs
        app_state.truncate_def Let_def)
next
  case (Inr b)
  with assms show ?thesis
    by (simp add: fetch_resume_def split: prod.splits)
qed

lemma truncate_previousRates:
  "app_state.truncate s = app_state.truncate s' \<Longrightarrow> previousRates s = previousRates s'"
  by (simp add: app_state.truncate_def)

lemma truncate_idle:
  "\<not> isFetching s \<Longrightarrow> app_state.truncate (s\<lparr>isFetching := False\<rparr>) = app_state.truncate s"
  by (simp add: app_state.truncate_def)

lemma fetchExchangeRates_idle:
  "\<not> isFetching s \<Longrightarrow>
   fetchExchangeRates result now s
     = fetch_resume (currentBaseCurrency s) result now (snd (fetch_start s))"
  by (simp add: fetchExchangeRates_def fetch_start_def)

lemma fetchExchangeRates_failed_app:
  assumes "fst (fetchExchangeRates result now s) = Failed e"
    "e \<noteq> JsError ''TypeError'' ''Cannot read properties of null (reading 'toFixed')''"
  shows "app_state.truncate (snd (fetchExchangeRates result now s)) = app_state.truncate s"
proof -
  have idle: "\<not> isFetching s"
    using assms by (auto simp add: fetchExchangeRates_def fetch_start_def)
  let ?s1 = "snd (fetch_start s)"
  have run: "fetchExchangeRates result now s
      = fetch_resume (currentBaseCurrency s) result now ?s1"
    using idle by (rule fetchExchangeRates_idle)
  have "app_state.truncate (snd (fetchExchangeRates result now s))
      = app_state.truncate (?s1\<lparr>isFetching := False\<rparr>)"
    using assms unfolding run by (rule fetch_resume_failed_app)
  also have "\<dots> = app_state.truncate s"
    using idle by (simp add: fetch_start_def display_defs app_state.truncate_def)
  finally show ?thesis .
qed

text \<open>
  The errors of a call that precede the store update: a rejected \<^verbatim>\<open>fetch\<close> (the abort
  of the timeout, a network failure), a status outside 200 to 299, a body that does not
  parse, the body \<^verbatim>\<open>null\<close>, and a body that fails the check of \<^verbatim>\<open>rates\<close>. The call
  ends in its \<^verbatim>\<open>catch\<close> block and \<^verbatim>\<open>AppState\<close>, the store and the time of the last
  successful update included, is as before the call.
\<close>

lemma early_error_keeps_state:
  assumes "\<not> isFetching s"
    "(\<exists>e. result = FetchRejected e)
     \<or> (\<exists>status b. result = FetchResolved status b \<and> \<not> response_ok status)
     \<or> (\<exists>status e. result = FetchResolved status (BodyRejected e))
     \<or> (\<exists>status data e. result = FetchResolved status (BodyParsed data)
           \<and> get_rates data = Inl e)
     \<or> (\<exists>status data v. result = FetchResolved status (BodyParsed data)
           \<and> get_rates data = Inr v \<and> (\<not> truthy_value v \<or> typeof v \<noteq> ''object''))"
  shows "\<exists>e. fst (fetchExchangeRates result now s) = Failed e"
    and "app_state.truncate (snd (fetchExchangeRates result now s)) = app_state.truncate s"
proof -
  let ?s1 = "snd (fetch_start s)"
  have "\<exists>e. fetch_try (currentBaseCurrency s) result now ?s1 = Inl (e, ?s1)"
    using assms(2) by (auto simp add: fetch_try_def)
  then obtain e where tried: "fetch_try (currentBaseCurrency s) result now ?s1 = Inl (e, ?s1)"
    by blast
  then show "\<exists>e. fst (fetchExchangeRates result now s) = Failed e"
    using assms(1) by (simp add: fetchExchangeRates_idle fetch_resume_def)
  show "app_state.truncate (snd (fetchExchangeRates result now s)) = app_state.truncate s"
    using assms(1) tried
    by (simp add: fetchExchangeRates_idle fetch_resume_def fetch_finally_def
        handleFetchError_def fetch_start_def display_defs app_state.truncate_def Let_def)
qed

subsection \<open>A call that completes\<close>

text \<open>
  The second observation of the base EUR: the call completes with the changes against
  the stored table, replaces the stored table by the new one, sets the time of the last
  successful update and clears the busy flag.
\<close>

lemma double_half: "double_of (1 / 2) = Num (1 / 2)"
  by code_simp

lemma double_three_halves: "double_of (3 / 2) = Num (3 / 2)"
  by code_simp

lemma fresh_properties:
  "properties (Some (VObject fresh_table))
     = [''USD'' \<mapsto> Rate (Num (3 / 2)), ''GBP'' \<mapsto> Rate (Num (1 / 2))]"
  by (rule ext)
    (simp add: properties_def fresh_table_def parse_entry_def double_half double_three_halves)

lemma fresh_rates_completed:
  "(\<exists>changes. fst (fetchExchangeRates fresh_rates 2000 sample_page) = Completed changes
       \<and> changes ''USD'' = Some (Num 50) \<and> changes ''GBP'' = Some (Num 0))
   \<and> previousRates (snd (fetchExchangeRates fresh_rates 2000 sample_page)) ''EUR''
       = Some [''USD'' \<mapsto> Rate (Num (3 / 2)), ''GBP'' \<mapsto> Rate (Num (1 / 2))]
   \<and> lastSuccessfulUpdate (snd (fetchExchangeRates fresh_rates 2000 sample_page)) = Some 2000
   \<and> \<not> isFetching (snd (fetchExchangeRates fresh_rates 2000 sample_page))"
proof -
  let ?s1 = "snd (fetch_start sample_page)"
  let ?table = "[''USD'' \<mapsto> Rate (Num (3 / 2)), ''GBP'' \<mapsto> Rate (Num (1 / 2))]"
  have idle: "\<not> isFetching sample_page"
    by (simp add: sample_page_def)
  have prev: "previousRates ?s1 ''EUR'' = Some sample_previous"
    by (simp add: fetch_start_def display_defs sample_page_def)
  have base: "currentBaseCurrency sample_page = ''EUR''"
    by (simp add: sample_page_def)
  have usd: "fst (calculateRealTimeChanges ?table ''EUR'' ?s1) ''USD'' = Some (Num 50)"
    using calculateRealTimeChanges_included
      [OF prev, of "''USD''" ?table "Num (3 / 2)" "Num 1"]
    unfolding usd_change threshold
    by (simp add: TARGET_CURRENCIES_def sample_previous_def)
  have gbp: "fst (calculateRealTimeChanges ?table ''EUR'' ?s1) ''GBP'' = Some (Num 0)"
    using calculateRealTimeChanges_included
      [OF prev, of "''GBP''" ?table "Num (1 / 2)" "Num (1 / 2)"]
    unfolding gbp_change threshold
    by (simp add: TARGET_CURRENCIES_def sample_previous_def)
  have run: "fetchExchangeRates fresh_rates 2000 sample_page
      = fetch_resume ''EUR'' fresh_rates 2000 ?s1"
    using fetchExchangeRates_idle [OF idle] base by simp
  have tried: "\<exists>s4. fetch_try ''EUR'' fresh_rates 2000 ?s1
      = Inr (fst (calculateRealTimeChanges ?table ''EUR'' ?s1), s4)
      \<and> previousRates s4 ''EUR'' = Some ?table
      \<and> lastSuccessfulUpdate s4 = Some 2000"
    by (simp add: fetch_try_def fresh_rates_def response_ok_def get_rates_def truthy_value_def
        typeof_def fresh_properties calculateRealTimeChanges_state displayResults_def
        TARGET_CURRENCIES_def
        showResults_def startAutoRefresh_def setInterval_def clearInterval_def Let_def
        case_prod_unfold)
  then obtain s4 where s4: "fetch_try ''EUR'' fresh_rates 2000 ?s1
      = Inr (fst (calculateRealTimeChanges ?table ''EUR'' ?s1), s4)"
    "previousRates s4 ''EUR'' = Some ?table" "lastSuccessfulUpdate s4 = Some 2000"
    by blast
  show ?thesis
    unfolding run
    using s4 usd gbp
    by (simp add: fetch_resume_def fetch_finally_def display_defs)
qed

subsection \<open>A call while another is in progress\<close>

text \<open>
  C2. When the busy flag \<^verbatim>\<open>AppState.isFetching\<close> is set, a call of
  \<^verbatim>\<open>fetchExchangeRates\<close> returns at its guard: it sends no request and leaves the whole
  page, the store and the time of the last successful update included, as it was.
  Nothing records the call for later.
\<close>

theorem C2_busy_call_is_skipped:
  "isFetching s \<Longrightarrow>
   fetchExchangeRates result now s = (Skipped, s) \<and> fetch_start s = (None, s)"
  by (simp add: fetchExchangeRates_def fetch_start_def)

theorem C2_busy_call_is_skipped_witness:
  "isFetching (sample_page\<lparr>isFetching := True\<rparr>)
   \<and> fetchExchangeRates fresh_rates 2000 (sample_page\<lparr>isFetching := True\<rparr>)
       = (Skipped, sample_page\<lparr>isFetching := True\<rparr>)
   \<and> fetch_start (sample_page\<lparr>isFetching := True\<rparr>)
       = (None, sample_page\<lparr>isFetching := True\<rparr>)"
  using C2_busy_call_is_skipped [of "sample_page\<lparr>isFetching := True\<rparr>" fresh_rates 2000]
  by simp

subsection \<open>A call that ends in an error\<close>

text \<open>
  Every call that got past the busy guard ends with the busy flag cleared, whatever
  path it took, so the next call is not skipped; the same holds of the completion
  alone, from whatever state the page is in when the response arrives.
\<close>

lemma busy_flag_cleared:
  "\<not> isFetching (snd (fetch_resume baseCurrency result now s))"
  "\<not> isFetching s \<Longrightarrow> \<not> isFetching (snd (fetchExchangeRates result now s))"
  "\<not> isFetching s \<Longrightarrow>
   fst (fetchExchangeRates result' now' (snd (fetchExchangeRates result now s))) \<noteq> Skipped"
proof -
  show "\<not> isFetching (snd (fetch_resume baseCurrency result now s))"
    by (rule fetch_resume_clears_busy)
  show cleared: "\<not> isFetching (snd (fetchExchangeRates result now s))" if "\<not> isFetching s"
    using that by (simp add: fetchExchangeRates_idle fetch_resume_clears_busy)
  have next_call: "fst (fetchExchangeRates result' now' s') \<noteq> Skipped"
    if "\<not> isFetching s'" for s'
    using that
    by (simp add: fetchExchangeRates_idle fetch_resume_def split: sum.splits prod.splits)
  show "fst (fetchExchangeRates result' now' (snd (fetchExchangeRates result now s)))
      \<noteq> Skipped" if "\<not> isFetching s"
    using cleared [OF that] by (rule next_call)
qed

text \<open>
  A timeout: the call ends in its \<^verbatim>\<open>catch\<close> block with the store and the time of the
  last successful update as before, and the next call is not skipped.
\<close>

lemma timed_out_keeps_store:
  "fst (fetchExchangeRates timed_out 2000 sample_page)
     = Failed (JsError ''AbortError'' ''The user aborted a request.'')
   \<and> previousRates (snd (fetchExchangeRates timed_out 2000 sample_page))
       = previousRates sample_page
   \<and> lastSuccessfulUpdate (snd (fetchExchangeRates timed_out 2000 sample_page)) = Some 1000
   \<and> \<not> isFetching (snd (fetchExchangeRates timed_out 2000 sample_page))
   \<and> fst (fetchExchangeRates fresh_rates 3000
            (snd (fetchExchangeRates timed_out 2000 sample_page))) \<noteq> Skipped"
proof -
  have failed: "fst (fetchExchangeRates timed_out 2000 sample_page)
      = Failed (JsError ''AbortError'' ''The user aborted a request.'')"
    by (simp add: fetchExchangeRates_def fetch_start_def fetch_resume_def fetch_try_def
        timed_out_def sample_page_def)
  have idle: "\<not> isFetching sample_page"
    by (simp add: sample_page_def)
  have before: "lastSuccessfulUpdate sample_page = Some 1000"
    by (simp add: sample_page_def)
  have "app_state.truncate (snd (fetchExchangeRates timed_out 2000 sample_page))
      = app_state.truncate sample_page"
    by (rule early_error_keeps_state(2) [OF idle]) (simp add: timed_out_def)
  then have "previousRates (snd (fetchExchangeRates timed_out 2000 sample_page))
        = previousRates sample_page
      \<and> lastSuccessfulUpdate (snd (fetchExchangeRates timed_out 2000 sample_page))
        = lastSuccessfulUpdate sample_page"
    by (simp add: app_state.truncate_def)
  with failed before busy_flag_cleared(2,3) [OF idle] show ?thesis by simp
qed

text \<open>
  C3 fails on a response whose rate table holds \<^verbatim>\<open>null\<close> for a target currency, the
  body \<^verbatim>\<open>{"rates": {"USD": null, "GBP": 0.5}}\<close>. The body passes the check of
  \<^verbatim>\<open>rates\<close>; \<^verbatim>\<open>calculateRealTimeChanges\<close> replaces the stored table of the base
  currency by the table of the body, and the time of the last successful update is set;
  then \<^verbatim>\<open>createTableRow\<close> throws at \<^verbatim>\<open>rate.toFixed(4)\<close> and the call ends in its
  \<^verbatim>\<open>catch\<close> block, with the message for an unexpected error. The busy flag is cleared.
\<close>

theorem C3_null_rate_fails_after_store_write:
  "fst (fetchExchangeRates null_rate 2000 sample_page)
     = Failed (JsError ''TypeError'' ''Cannot read properties of null (reading 'toFixed')'')
   \<and> previousRates sample_page ''EUR'' = Some sample_previous
   \<and> sample_previous ''USD'' = Some (Rate (Num 1))
   \<and> previousRates (snd (fetchExchangeRates null_rate 2000 sample_page)) ''EUR''
       = Some [''USD'' \<mapsto> Null, ''GBP'' \<mapsto> Rate (Num (1 / 2))]
   \<and> lastSuccessfulUpdate sample_page = Some 1000
   \<and> lastSuccessfulUpdate (snd (fetchExchangeRates null_rate 2000 sample_page)) = Some 2000
   \<and> errorMessage (snd (fetchExchangeRates null_rate 2000 sample_page))
       = ''An unexpected error occurred.''
   \<and> \<not> isFetching (snd (fetchExchangeRates null_rate 2000 sample_page))"
proof -
  let ?s1 = "snd (fetch_start sample_page)"
  let ?table = "[''USD'' \<mapsto> Null, ''GBP'' \<mapsto> Rate (Num (1 / 2))]"
  let ?e = "JsError ''TypeError'' ''Cannot read properties of null (reading 'toFixed')''"
  have props: "properties (Some (VObject null_rate_table)) = ?table"
    by (rule ext) (simp add: properties_def null_rate_table_def parse_entry_def double_half)
  have idle: "\<not> isFetching sample_page"
    by (simp add: sample_page_def)
  have base: "currentBaseCurrency sample_page = ''EUR''"
    by (simp add: sample_page_def)
  have run: "fetchExchangeRates null_rate 2000 sample_page
      = fetch_resume ''EUR'' null_rate 2000 ?s1"
    using fetchExchangeRates_idle [OF idle] base by simp
  have tried: "fetch_try ''EUR'' null_rate 2000 ?s1
      = Inl (?e, (snd (calculateRealTimeChanges ?table ''EUR'' ?s1))
                   \<lparr>lastSuccessfulUpdate := Some 2000, isOnline := True,
                    currentRates := ?table, displayed := None\<rparr>)"
    by (simp add: fetch_try_def null_rate_def response_ok_def get_rates_def truthy_value_def
        typeof_def props displayResults_def TARGET_CURRENCIES_def Let_def case_prod_unfold)
  have resumed: "fetch_resume ''EUR'' null_rate 2000 ?s1
      = (Failed ?e, fetch_finally (handleFetchError ?e
           ((snd (calculateRealTimeChanges ?table ''EUR'' ?s1))
              \<lparr>lastSuccessfulUpdate := Some 2000, isOnline := True,
               currentRates := ?table, displayed := None\<rparr>)))"
    using tried by (simp add: fetch_resume_def)
  show ?thesis
    unfolding run resumed
    by (simp add: calculateRealTimeChanges_state fetch_finally_def handleFetchError_def
        fetch_start_def display_defs sample_page_def sample_previous_def Let_def)
qed

subsection \<open>The check of the response body\<close>

text \<open>
  A body that is not \<^verbatim>\<open>null\<close> and whose \<^verbatim>\<open>rates\<close> property is missing, falsy or not
  of type \<^verbatim>\<open>object\<close> is refused with \<^verbatim>\<open>INVALID_RESPONSE\<close> before anything is written:
  \<^verbatim>\<open>AppState\<close> is as before the call, and the message for an invalid response is shown.
\<close>

lemma invalid_rates_rejected:
  assumes "\<not> isFetching s" "response_ok status" "get_rates data = Inr v"
    "\<not> truthy_value v \<or> typeof v \<noteq> ''object''"
  shows "fst (fetchExchangeRates (FetchResolved status (BodyParsed data)) now s)
           = Failed (JsError ''Error'' ''INVALID_RESPONSE'')"
    and "app_state.truncate (snd (fetchExchangeRates (FetchResolved status (BodyParsed data)) now s))
           = app_state.truncate s"
    and "errorMessage (snd (fetchExchangeRates (FetchResolved status (BodyParsed data)) now s))
           = ''Invalid response from server. Please try again.''"
proof -
  have tried: "fetch_try (currentBaseCurrency s) (FetchResolved status (BodyParsed data)) now
      (snd (fetch_start s)) = Inl (JsError ''Error'' ''INVALID_RESPONSE'', snd (fetch_start s))"
    using assms(2-4) by (auto simp add: fetch_try_def)
  show failed: "fst (fetchExchangeRates (FetchResolved status (BodyParsed data)) now s)
      = Failed (JsError ''Error'' ''INVALID_RESPONSE'')"
    using assms(1) tried by (simp add: fetchExchangeRates_idle fetch_resume_def)
  show "app_state.truncate (snd (fetchExchangeRates (FetchResolved status (BodyParsed data)) now s))
      = app_state.truncate s"
    using failed by (rule fetchExchangeRates_failed_app) simp
  show "errorMessage (snd (fetchExchangeRates (FetchResolved status (BodyParsed data)) now s))
      = ''Invalid response from server. Please try again.''"
    using assms(1) tried
    by (simp add: fetchExchangeRates_idle fetch_resume_def fetch_finally_def
        handleFetchError_def display_defs Let_def)
qed

lemma empty_object_body_rejected:
  "fst (fetchExchangeRates empty_object_body 2000 sample_page)
     = Failed (JsError ''Error'' ''INVALID_RESPONSE'')
   \<and> previousRates (snd (fetchExchangeRates empty_object_body 2000 sample_page))
       = previousRates sample_page"
proof -
  have idle: "\<not> isFetching sample_page"
    by (simp add: sample_page_def)
  have ok: "response_ok 200"
    by (simp add: response_ok_def)
  have rates: "get_rates (JsonObject None) = Inr None"
    by (simp add: get_rates_def)
  have bad: "\<not> truthy_value None \<or> typeof None \<noteq> ''object''"
    by (simp add: truthy_value_def)
  from invalid_rates_rejected(1,2) [OF idle ok rates bad, of 2000]
  show ?thesis
    by (simp add: empty_object_body_def app_state.truncate_def)
qed

text \<open>
  C4 fails on two bodies. An array is truthy and of type \<^verbatim>\<open>object\<close>, so a body whose
  \<^verbatim>\<open>rates\<close> is \<^verbatim>\<open>[]\<close> passes the check: the call completes with an empty change set,
  replaces the stored table of the base currency by an empty one, sets the time of the
  last successful update and shows no error. And the body \<^verbatim>\<open>null\<close> has no \<^verbatim>\<open>rates\<close>,
  but reading the property throws a \<^verbatim>\<open>TypeError\<close> before the check: the call fails
  with that error and the message for an unexpected error, not with
  \<^verbatim>\<open>INVALID_RESPONSE\<close>.
\<close>

theorem C4_array_rates_pass_the_check:
  "fst (fetchExchangeRates empty_array_rates 2000 sample_page) = Completed Map.empty
   \<and> previousRates sample_page ''EUR'' = Some sample_previous
   \<and> previousRates (snd (fetchExchangeRates empty_array_rates 2000 sample_page)) ''EUR''
       = Some Map.empty
   \<and> lastSuccessfulUpdate (snd (fetchExchangeRates empty_array_rates 2000 sample_page))
       = Some 2000
   \<and> errorHidden (snd (fetchExchangeRates empty_array_rates 2000 sample_page))
   \<and> fst (fetchExchangeRates null_body 2000 sample_page)
       = Failed (JsError ''TypeError'' ''Cannot read properties of null (reading 'rates')'')
   \<and> errorMessage (snd (fetchExchangeRates null_body 2000 sample_page))
       = ''An unexpected error occurred.''"
proof -
  have props: "properties (Some (VArray [])) = Map.empty"
    by (simp add: properties_def)
  have skip: "fold (change_step Map.empty sample_previous ''EUR'') TARGET_CURRENCIES Map.empty
      = Map.empty"
    by (simp add: TARGET_CURRENCIES_def change_step_def truthy_def)
  have tried: "fetch_try ''EUR'' empty_array_rates 2000 (snd (fetch_start sample_page))
      = Inr (Map.empty,
          (snd (fetch_start sample_page))
            \<lparr>previousRates := [''EUR'' \<mapsto> Map.empty], lastSuccessfulUpdate := Some 2000,
             isOnline := True, currentRates := Map.empty,
             displayed := Some (Map.empty, ''EUR'', Map.empty), resultsHidden := False\<rparr>)"
    by (simp add: fetch_try_def empty_array_rates_def response_ok_def get_rates_def
        truthy_value_def typeof_def props calculateRealTimeChanges_def skip
        displayResults_def list_ex_iff showResults_def truthy_id_def
        fetch_start_def display_defs sample_page_def Let_def)
  have array: "fetchExchangeRates empty_array_rates 2000 sample_page
      = (Completed Map.empty, fetch_finally
          ((snd (fetch_start sample_page))
            \<lparr>previousRates := [''EUR'' \<mapsto> Map.empty], lastSuccessfulUpdate := Some 2000,
             isOnline := True, currentRates := Map.empty,
             displayed := Some (Map.empty, ''EUR'', Map.empty), resultsHidden := False\<rparr>))"
    using tried
    by (simp add: fetchExchangeRates_def fetch_resume_def fetch_start_def sample_page_def)
  have null: "fetchExchangeRates null_body 2000 sample_page
      = (Failed (JsError ''TypeError'' ''Cannot read properties of null (reading 'rates')''),
         fetch_finally (handleFetchError
           (JsError ''TypeError'' ''Cannot read properties of null (reading 'rates')'')
           (snd (fetch_start sample_page))))"
    by (simp add: fetchExchangeRates_def fetch_resume_def fetch_try_def null_body_def
        response_ok_def get_rates_def fetch_start_def sample_page_def)
  show ?thesis
    unfolding array null
    by (simp add: fetch_finally_def handleFetchError_def fetch_start_def display_defs
        sample_page_def Let_def)
qed

subsection \<open>The tick of the auto-refresh timer\<close>

text \<open>
  C8. A tick of the auto-refresh timer starts a call of \<^verbatim>\<open>fetchExchangeRates\<close> exactly
  when the page is online and no call is in progress: the request for the current base
  currency is sent and the busy flag is set. In every other state the tick changes
  nothing and sends nothing; the page keeps no record of a skipped tick.
\<close>

theorem C8_tick_syncs_only_when_online_and_idle:
  "(isOnline s \<and> \<not> isFetching s \<longrightarrow>
      auto_refresh_tick s = fetch_start s
    \<and> fst (auto_refresh_tick s)
        = Some (API_BASE_URL @ ''/latest?from='' @ currentBaseCurrency s)
    \<and> isFetching (snd (auto_refresh_tick s)))
   \<and> (\<not> (isOnline s \<and> \<not> isFetching s) \<longrightarrow> auto_refresh_tick s = (None, s))"
  by (simp add: auto_refresh_tick_def fetch_start_def display_defs)

theorem C8_tick_syncs_only_when_online_and_idle_witness:
  "isOnline sample_page \<and> \<not> isFetching sample_page
   \<and> fst (auto_refresh_tick sample_page) = Some ''https://api.frankfurter.app/latest?from=EUR''
   \<and> isFetching (snd (auto_refresh_tick sample_page))
   \<and> \<not> isOnline (sample_page\<lparr>isOnline := False\<rparr>)
   \<and> auto_refresh_tick (sample_page\<lparr>isOnline := False\<rparr>)
       = (None, sample_page\<lparr>isOnline := False\<rparr>)
   \<and> isFetching (sample_page\<lparr>isFetching := True\<rparr>)
   \<and> auto_refresh_tick (sample_page\<lparr>isFetching := True\<rparr>)
       = (None, sample_page\<lparr>isFetching := True\<rparr>)"
proof -
  have idle: "isOnline sample_page \<and> \<not> isFetching sample_page"
    by (simp add: sample_page_def)
  have base: "currentBaseCurrency sample_page = ''EUR''"
    by (simp add: sample_page_def)
  from C8_tick_syncs_only_when_online_and_idle [of sample_page] idle
  have "fst (auto_refresh_tick sample_page)
      = Some (API_BASE_URL @ ''/latest?from='' @ currentBaseCurrency sample_page)
    \<and> isFetching (snd (auto_refresh_tick sample_page))"
    by blast
  then have started: "fst (auto_refresh_tick sample_page)
      = Some ''https://api.frankfurter.app/latest?from=EUR''
    \<and> isFetching (snd (auto_refresh_tick sample_page))"
    by (simp add: base API_BASE_URL_def)
  from C8_tick_syncs_only_when_online_and_idle [of "sample_page\<lparr>isOnline := False\<rparr>"]
    C8_tick_syncs_only_when_online_and_idle [of "sample_page\<lparr>isFetching := True\<rparr>"]
    idle started
  show ?thesis by simp
qed

section \<open>Properties of the service worker\<close>

subsection \<open>The named caches\<close>

lemma names_differ: "CACHE_NAME \<noteq> API_CACHE_NAME"
  by (simp add: CACHE_NAME_def API_CACHE_NAME_def)

lemma map_of_update_cache:
  "map_of (update_cache m f cs) n = (if n = m then map_option f (map_of cs n) else map_of cs n)"
  by (induction cs) (auto simp add: update_cache_def)

lemma cache_of_update_cache:
  "cache_of n (update_cache m f cs) =
     (if n = m \<and> m \<in> fst ` set cs then f (cache_of n cs) else cache_of n cs)"
proof (cases "map_of cs n")
  case None
  then have "n \<notin> fst ` set cs" by (simp add: map_of_eq_None_iff)
  with None show ?thesis by (auto simp add: cache_of_def map_of_update_cache)
next
  case (Some c)
  then have "n \<in> fst ` set cs" by (metis map_of_eq_None_iff option.distinct(1))
  with Some show ?thesis by (auto simp add: cache_of_def map_of_update_cache)
qed

lemma cache_of_caches_open: "cache_of n (caches_open m cs) = cache_of n cs"
proof (cases "m \<in> fst ` set cs")
  case True
  then show ?thesis by (simp add: caches_open_def)
next
  case False
  then have "map_of cs m = None" by (simp add: map_of_eq_None_iff)
  with False show ?thesis
    by (auto simp add: cache_of_def caches_open_def map_add_def split: option.splits)
qed

lemma caches_open_has: "m \<in> fst ` set (caches_open m cs)"
  by (auto simp add: caches_open_def)

lemma fold_delete_filter:
  "fold (\<lambda>cacheName acc.
           if cacheName \<noteq> CACHE_NAME \<and> cacheName \<noteq> API_CACHE_NAME
           then caches_delete cacheName acc else acc) ns acc
     = filter (\<lambda>(n, c). n \<notin> set ns \<or> n = CACHE_NAME \<or> n = API_CACHE_NAME) acc"
proof (induction ns arbitrary: acc)
  case Nil
  then show ?case by simp
next
  case (Cons a ns)
  have "filter (\<lambda>(n, c). n \<notin> set ns \<or> n = CACHE_NAME \<or> n = API_CACHE_NAME)
          (if a \<noteq> CACHE_NAME \<and> a \<noteq> API_CACHE_NAME then caches_delete a acc else acc)
      = filter (\<lambda>(n, c). n \<notin> set (a # ns) \<or> n = CACHE_NAME \<or> n = API_CACHE_NAME) acc"
    by (induction acc) (auto simp add: caches_delete_def)
  then show ?case by (simp add: Cons.IH)
qed

lemma on_activate_filter:
  "on_activate cs = filter (\<lambda>(n, c). n = CACHE_NAME \<or> n = API_CACHE_NAME) cs"
proof -
  have "filter (\<lambda>(n, c). n \<notin> set (map fst cs) \<or> n = CACHE_NAME \<or> n = API_CACHE_NAME) cs
      = filter (\<lambda>(n, c). n = CACHE_NAME \<or> n = API_CACHE_NAME) cs"
    by (rule filter_cong) (auto simp add: rev_image_eqI)
  then show ?thesis by (simp add: on_activate_def fold_delete_filter)
qed

lemma cache_of_on_activate:
  "n = CACHE_NAME \<or> n = API_CACHE_NAME \<Longrightarrow> cache_of n (on_activate cs) = cache_of n cs"
  unfolding on_activate_filter cache_of_def
  by (induction cs) auto

lemma dom_fold_put:
  "dom (fold (\<lambda>u. cache_put \<lparr>req_method = ''GET'', req_url = u\<rparr> (the (net u))) urls c)
     \<subseteq> dom c \<union> set urls"
proof (induction urls arbitrary: c)
  case Nil
  then show ?case by simp
next
  case (Cons a urls)
  have "dom (cache_put \<lparr>req_method = ''GET'', req_url = a\<rparr> (the (net a)) c) \<subseteq> dom c \<union> {a}"
    by (simp add: cache_put_def subset_insertI)
  with Cons.IH [of "cache_put \<lparr>req_method = ''GET'', req_url = a\<rparr> (the (net a)) c"]
  show ?case by auto
qed

lemma dom_addAll: "dom (addAll urls net c) \<subseteq> dom c \<union> set urls"
  using dom_fold_put [of net urls c] by (auto simp add: addAll_def)


lemma static_api_asset:
  "u \<in> set STATIC_ASSETS \<Longrightarrow> includes_str u ''frankfurter.app'' \<Longrightarrow>
   u = ''https://api.frankfurter.app/latest?from=EUR''"
  by (auto simp add: STATIC_ASSETS_def)

lemma cache_of_on_install:
  "cache_of n (on_install net cs) =
     (if n = CACHE_NAME then addAll STATIC_ASSETS net (cache_of n cs) else cache_of n cs)"
  by (simp add: on_install_def cache_of_update_cache cache_of_caches_open caches_open_has)

lemma cache_of_api_store:
  "cache_of n (api_store request resp cs) =
     (if n = API_CACHE_NAME then cache_put request resp (cache_of n cs) else cache_of n cs)"
  by (simp add: api_store_def cache_of_update_cache cache_of_caches_open caches_open_has)


lemma cache_of_absent: "n \<notin> fst ` set cs \<Longrightarrow> cache_of n cs = Map.empty"
  by (simp add: cache_of_def map_of_eq_None_iff [THEN iffD2])

subsection \<open>What each partition can hold\<close>

lemma partitions_step:
  assumes "dom (cache_of CACHE_NAME cs) \<subseteq> set STATIC_ASSETS"
    and "\<forall>u \<in> dom (cache_of API_CACHE_NAME cs). includes_str u ''frankfurter.app''"
  shows "dom (cache_of CACHE_NAME (sw_step ev cs)) \<subseteq> set STATIC_ASSETS
       \<and> (\<forall>u \<in> dom (cache_of API_CACHE_NAME (sw_step ev cs)). includes_str u ''frankfurter.app'')"
proof (cases ev)
  case (Install net)
  have "dom (addAll STATIC_ASSETS net (cache_of CACHE_NAME cs)) \<subseteq> set STATIC_ASSETS"
    using dom_addAll [of STATIC_ASSETS net "cache_of CACHE_NAME cs"] assms(1) by auto
  with Install assms(2) show ?thesis
    by (simp add: cache_of_on_install names_differ [symmetric])
next
  case Activate
  with assms show ?thesis by (simp add: cache_of_on_activate)
next
  case (Fetch request net)
  with assms show ?thesis by simp
next
  case (Stored request resp)
  with assms show ?thesis
    by (auto simp add: cache_of_api_store names_differ cache_put_def split: if_splits)
qed

lemma partitions_run:
  assumes "dom (cache_of CACHE_NAME cs) \<subseteq> set STATIC_ASSETS"
    and "\<forall>u \<in> dom (cache_of API_CACHE_NAME cs). includes_str u ''frankfurter.app''"
  shows "dom (cache_of CACHE_NAME (sw_run events cs)) \<subseteq> set STATIC_ASSETS
       \<and> (\<forall>u \<in> dom (cache_of API_CACHE_NAME (sw_run events cs)). includes_str u ''frankfurter.app'')"
  using assms
proof (induction events arbitrary: cs)
  case Nil
  then show ?case by (simp add: sw_run_def)
next
  case (Cons ev events)
  from partitions_step [OF Cons.prems, of ev]
  have "dom (cache_of CACHE_NAME (sw_run events (sw_step ev cs))) \<subseteq> set STATIC_ASSETS
      \<and> (\<forall>u \<in> dom (cache_of API_CACHE_NAME (sw_run events (sw_step ev cs))).
            includes_str u ''frankfurter.app'')"
    by (intro Cons.IH) simp_all
  then show ?case by (simp add: sw_run_def)
qed

subsection \<open>The storage after a first visit\<close>

lemma installed_storage:
  "sw_run installed []
     = [(CACHE_NAME, addAll STATIC_ASSETS (\<lambda>u. Some install_response) Map.empty)]"
  by (simp add: sw_run_def installed_def on_install_def caches_open_def update_cache_def
      on_activate_def caches_delete_def)

lemma first_visit_storage:
  "includes_str (req_url request) ''frankfurter.app'' \<Longrightarrow>
   sw_run (first_visit request) []
     = [(CACHE_NAME, addAll STATIC_ASSETS (\<lambda>u. Some install_response) Map.empty),
        (API_CACHE_NAME, cache_put request live_response Map.empty)]"
proof -
  assume api: "includes_str (req_url request) ''frankfurter.app''"
  have "sw_run (first_visit request) []
      = sw_step (Stored request live_response) (sw_run installed [])"
    by (simp add: sw_run_def first_visit_def)
  then show ?thesis
    using api unfolding installed_storage
    by (simp add: api_store_def caches_open_def update_cache_def
        names_differ names_differ [symmetric])
qed

lemma installed_cache_lookup:
  "addAll STATIC_ASSETS (\<lambda>u. Some install_response) Map.empty u
     = (if u \<in> set STATIC_ASSETS then Some install_response else None)"
  by (simp add: addAll_def STATIC_ASSETS_def add_ok_def response_ok_def
      install_response_def cache_put_def)

lemma usd_is_api: "includes_str (req_url usd_request) ''frankfurter.app''"
  by (simp add: usd_request_def)

lemma eur_req_is_api: "includes_str (req_url eur_request) ''frankfurter.app''"
  by (simp add: eur_request_def)


lemma first_visit_api_entry:
  assumes "includes_str (req_url request) ''frankfurter.app''" "req_method request = ''GET''"
  shows "cache_of API_CACHE_NAME (sw_run (first_visit request) []) (req_url request)
           = Some live_response"
  unfolding first_visit_storage [OF assms(1)]
  using assms(2)
  by (simp add: cache_of_def names_differ [symmetric] cache_put_def live_response_def)

lemma first_visit_static_cache:
  assumes "includes_str (req_url request) ''frankfurter.app''"
  shows "cache_of CACHE_NAME (sw_run (first_visit request) [])
           = addAll STATIC_ASSETS (\<lambda>u. Some install_response) Map.empty"
  unfolding first_visit_storage [OF assms]
  by (simp add: cache_of_def)

lemma get_requests: "req_method eur_request = ''GET''" "req_method usd_request = ''GET''"
  by (simp_all add: eur_request_def usd_request_def)

lemma installed_cache_eur:
  "cache_match eur_request (addAll STATIC_ASSETS (\<lambda>u. Some install_response) Map.empty)
     = Some install_response"
  unfolding cache_match_def installed_cache_lookup
  by (simp add: STATIC_ASSETS_def eur_request_def)

lemma installed_cache_usd:
  "cache_match usd_request (addAll STATIC_ASSETS (\<lambda>u. Some install_response) Map.empty)
     = None"
  unfolding cache_match_def installed_cache_lookup
  by (simp add: STATIC_ASSETS_def usd_request_def)

subsection \<open>The fallback of the API branch\<close>

lemma caches_match_none:
  "\<forall>(n, c) \<in> set cs. cache_match request c = None \<Longrightarrow> caches_match request cs = None"
  by (induction cs) auto

lemma caches_match_first:
  "\<forall>(m, d) \<in> set pre. cache_match request d = None \<Longrightarrow> cache_match request c = Some e \<Longrightarrow>
   caches_match request (pre @ (n, c) # post) = Some e"
  by (induction pre) auto

lemma caches_match_only_api:
  assumes "distinct (map fst cs)"
    and "\<forall>(n, c) \<in> set cs. n \<noteq> API_CACHE_NAME \<longrightarrow> cache_match request c = None"
  shows "caches_match request cs = cache_match request (cache_of API_CACHE_NAME cs)"
  using assms
proof (induction cs)
  case Nil
  then show ?case by (simp add: cache_of_def cache_match_def)
next
  case (Cons p cs)
  obtain n c where p: "p = (n, c)" by (cases p)
  show ?case
  proof (cases "n = API_CACHE_NAME")
    case True
    with Cons.prems p have "\<forall>(m, d) \<in> set cs. cache_match request d = None"
      by (auto simp add: rev_image_eqI)
    then have "caches_match request cs = None" by (rule caches_match_none)
    with True p show ?thesis
      by (simp add: cache_of_def split: option.splits)
  next
    case False
    with Cons.prems p have "cache_match request c = None" by simp
    moreover have "caches_match request cs = cache_match request (cache_of API_CACHE_NAME cs)"
      using Cons.prems by (intro Cons.IH) simp_all
    ultimately show ?thesis using False p by (simp add: cache_of_def)
  qed
qed

lemma stored_storage_names:
  "distinct (map fst cs) \<Longrightarrow>
   distinct (map fst (update_cache m f (caches_open m cs)))"
  by (auto simp add: update_cache_def caches_open_def comp_def case_prod_unfold if_distrib
      cong: if_cong)

lemma stored_storage_others:
  assumes "\<forall>(n, c) \<in> set cs. n \<noteq> m \<longrightarrow> cache_match request c = None"
  shows "\<forall>(n, c) \<in> set (update_cache m f (caches_open m cs)).
           n \<noteq> m \<longrightarrow> cache_match request c = None"
  using assms by (auto simp add: update_cache_def caches_open_def split: if_splits)

text \<open>
  A live request of an API request that succeeds answers with the response and starts
  the storing of its copy; a failed one starts none.
\<close>

lemma on_fetch_api_success:
  "includes_str (req_url request) ''frankfurter.app'' \<Longrightarrow>
   on_fetch request (Some resp) cs = (Responded resp, Some (request, resp))"
  by (simp add: on_fetch_def)

lemma on_fetch_api_failure:
  "includes_str (req_url request) ''frankfurter.app'' \<Longrightarrow>
   on_fetch request None cs
     = ((case caches_match request cs of
           Some cached \<Rightarrow> Responded cached
         | None \<Rightarrow> NetworkError), None)"
  by (simp add: on_fetch_def split: option.splits)

text \<open>
  C6, as the code has it. When the live request of an API request fails, the worker
  answers from \<^verbatim>\<open>caches.match(request)\<close>, which searches every cache of the storage in
  the order of creation and not the API cache alone, and it stores nothing. When no
  cache other than the API cache holds the request, the answer is the entry of the API
  cache, which is the response whose storing was the last to complete (a storable
  response, stored, answers the next failure). When the API cache holds no entry for
  the request, the answer is the entry of the first cache, in the order of creation,
  that holds one: another cache answers in place of the API cache. When no cache at all
  holds the request, the answer is a network error: the failure reaches the page.
\<close>

theorem C6_fallback_answers_by_partition:
  assumes "includes_str (req_url request) ''frankfurter.app''"
    and "distinct (map fst cs)"
  shows "((\<forall>(n, c) \<in> set cs. n \<noteq> API_CACHE_NAME \<longrightarrow> cache_match request c = None) \<longrightarrow>
            (\<forall>e. cache_match request (cache_of API_CACHE_NAME cs) = Some e \<longrightarrow>
                 fst (on_fetch request None cs) = Responded e)
          \<and> (req_method request = ''GET'' \<and> resp_status resp \<noteq> 206 \<longrightarrow>
               fst (on_fetch request None (api_store request resp cs)) = Responded resp))
       \<and> (cache_match request (cache_of API_CACHE_NAME cs) = None \<longrightarrow>
            (\<forall>pre n c post e.
                 cs = pre @ (n, c) # post
               \<and> (\<forall>(m, d) \<in> set pre. cache_match request d = None)
               \<and> cache_match request c = Some e \<longrightarrow>
                 fst (on_fetch request None cs) = Responded e))
       \<and> ((\<forall>(n, c) \<in> set cs. cache_match request c = None) \<longrightarrow>
            fst (on_fetch request None cs) = NetworkError)
       \<and> snd (on_fetch request None cs) = None"
proof -
  note all = on_fetch_api_failure [OF assms(1)]
  have api: "fst (on_fetch request None cs) = Responded e"
    if "distinct (map fst cs)"
      and "\<forall>(n, c) \<in> set cs. n \<noteq> API_CACHE_NAME \<longrightarrow> cache_match request c = None"
      and "cache_match request (cache_of API_CACHE_NAME cs) = Some e" for cs e
    using caches_match_only_api [OF that(1,2)] that(3) by (simp add: all)
  have recent: "fst (on_fetch request None (api_store request resp cs)) = Responded resp"
    if o: "\<forall>(n, c) \<in> set cs. n \<noteq> API_CACHE_NAME \<longrightarrow> cache_match request c = None"
      and g: "req_method request = ''GET''" and p: "resp_status resp \<noteq> 206"
  proof -
    have "cache_match request (cache_of API_CACHE_NAME (api_store request resp cs)) = Some resp"
      using g p by (simp add: cache_of_api_store cache_match_def cache_put_def)
    moreover have "distinct (map fst (api_store request resp cs))"
      unfolding api_store_def using assms(2) by (rule stored_storage_names)
    moreover have "\<forall>(n, c) \<in> set (api_store request resp cs).
        n \<noteq> API_CACHE_NAME \<longrightarrow> cache_match request c = None"
      unfolding api_store_def using o by (rule stored_storage_others)
    ultimately show ?thesis by (intro api)
  qed
  have other: "fst (on_fetch request None cs) = Responded e"
    if "cs = pre @ (n, c) # post" "\<forall>(m, d) \<in> set pre. cache_match request d = None"
      "cache_match request c = Some e" for pre n c post e
    using caches_match_first [OF that(2,3), of n post] that(1) by (simp add: all)
  have none: "fst (on_fetch request None cs) = NetworkError"
    if "\<forall>(n, c) \<in> set cs. cache_match request c = None"
    using caches_match_none [OF that] by (simp add: all)
  have no_storing: "snd (on_fetch request None cs) = None"
    by (simp add: all)
  show ?thesis
  proof (intro conjI impI allI)
    fix e
    assume "\<forall>(n, c) \<in> set cs. n \<noteq> API_CACHE_NAME \<longrightarrow> cache_match request c = None"
      and "cache_match request (cache_of API_CACHE_NAME cs) = Some e"
    then show "fst (on_fetch request None cs) = Responded e"
      by (rule api [OF assms(2)])
  next
    assume "\<forall>(n, c) \<in> set cs. n \<noteq> API_CACHE_NAME \<longrightarrow> cache_match request c = None"
      and "req_method request = ''GET'' \<and> resp_status resp \<noteq> 206"
    then show "fst (on_fetch request None (api_store request resp cs)) = Responded resp"
      by (intro recent) simp_all
  next
    fix pre n c post e
    assume "cs = pre @ (n, c) # post
      \<and> (\<forall>(m, d) \<in> set pre. cache_match request d = None)
      \<and> cache_match request c = Some e"
    then show "fst (on_fetch request None cs) = Responded e"
      by (intro other [of pre n c post e]) simp_all
  next
    assume "\<forall>(n, c) \<in> set cs. cache_match request c = None"
    then show "fst (on_fetch request None cs) = NetworkError"
      by (rule none)
  next
    show "snd (on_fetch request None cs) = None"
      by (rule no_storing)
  qed
qed

theorem C6_fallback_answers_by_partition_witness:
  "includes_str (req_url usd_request) ''frankfurter.app''
   \<and> distinct (map fst (sw_run (first_visit usd_request) []))
   \<and> req_method usd_request = ''GET'' \<and> resp_status later_response \<noteq> 206
   \<and> cache_match usd_request (cache_of CACHE_NAME (sw_run (first_visit usd_request) []))
       = None
   \<and> cache_match usd_request (cache_of API_CACHE_NAME (sw_run (first_visit usd_request) []))
       = Some live_response
   \<and> fst (on_fetch usd_request None (sw_run (first_visit usd_request) []))
       = Responded live_response
   \<and> fst (on_fetch usd_request None
            (api_store usd_request later_response (sw_run (first_visit usd_request) [])))
       = Responded later_response
   \<and> includes_str (req_url eur_request) ''frankfurter.app''
   \<and> distinct (map fst (sw_run installed []))
   \<and> cache_match eur_request (cache_of API_CACHE_NAME (sw_run installed [])) = None
   \<and> cache_match eur_request (cache_of CACHE_NAME (sw_run installed []))
       = Some install_response
   \<and> fst (on_fetch eur_request None (sw_run installed [])) = Responded install_response
   \<and> fst (on_fetch usd_request None []) = NetworkError
   \<and> snd (on_fetch usd_request None []) = None"
proof -
  let ?static = "addAll STATIC_ASSETS (\<lambda>u. Some install_response) Map.empty"
  let ?cs = "sw_run (first_visit usd_request) []"
  have cs: "?cs = [(CACHE_NAME, ?static),
      (API_CACHE_NAME, cache_put usd_request live_response Map.empty)]"
    using usd_is_api by (rule first_visit_storage)
  have get: "req_method usd_request = ''GET''"
    by (simp add: usd_request_def)
  have storable: "resp_status later_response \<noteq> 206"
    by (simp add: later_response_def)
  have names: "distinct (map fst ?cs)"
    by (simp add: cs names_differ)
  have others: "\<forall>(n, c) \<in> set ?cs. n \<noteq> API_CACHE_NAME \<longrightarrow> cache_match usd_request c = None"
    unfolding cs by (simp add: installed_cache_usd)
  have static_usd: "cache_match usd_request (cache_of CACHE_NAME ?cs) = None"
    by (simp add: first_visit_static_cache [OF usd_is_api] installed_cache_usd)
  have "cache_of API_CACHE_NAME ?cs (req_url usd_request) = Some live_response"
    using usd_is_api get by (rule first_visit_api_entry)
  then have hit: "cache_match usd_request (cache_of API_CACHE_NAME ?cs) = Some live_response"
    by (simp add: cache_match_def get)
  from C6_fallback_answers_by_partition [OF usd_is_api names, of later_response]
    others get storable hit
  have first: "fst (on_fetch usd_request None ?cs) = Responded live_response
      \<and> fst (on_fetch usd_request None (api_store usd_request later_response ?cs))
          = Responded later_response"
    by blast
  have installed_names: "distinct (map fst (sw_run installed []))"
    by (simp add: installed_storage)
  have api_none: "cache_match eur_request (cache_of API_CACHE_NAME (sw_run installed []))
      = None"
    by (simp add: installed_storage cache_of_def cache_match_def names_differ [symmetric])
  have static_eur: "cache_match eur_request (cache_of CACHE_NAME (sw_run installed []))
      = Some install_response"
    by (simp add: installed_storage cache_of_def installed_cache_eur)
  from C6_fallback_answers_by_partition [OF eur_req_is_api installed_names, of later_response]
    api_none
  have "\<forall>pre n c post e.
        sw_run installed [] = pre @ (n, c) # post
      \<and> (\<forall>(m, d) \<in> set pre. cache_match eur_request d = None)
      \<and> cache_match eur_request c = Some e \<longrightarrow>
        fst (on_fetch eur_request None (sw_run installed [])) = Responded e"
    by blast
  note other = this [rule_format, of "[]" CACHE_NAME ?static "[]" install_response]
  have second: "fst (on_fetch eur_request None (sw_run installed []))
      = Responded install_response"
    by (rule other) (simp add: installed_storage installed_cache_eur)
  have empty: "distinct (map fst ([] :: cache_storage))"
    by simp
  from C6_fallback_answers_by_partition [OF usd_is_api empty, of later_response]
  have third: "fst (on_fetch usd_request None []) = NetworkError
      \<and> snd (on_fetch usd_request None []) = None"
    by simp
  from first second third names get storable static_usd hit installed_names api_none
    static_eur usd_is_api eur_req_is_api
  show ?thesis by simp
qed

text \<open>
  The claim as the specification words it fails for the request that
  \<^verbatim>\<open>STATIC_ASSETS\<close> lists. Right after the install, the API cache holds no entry for
  the request of the base EUR, yet a failure of the network does not reach the page:
  the response stored at install time in the static cache answers.
\<close>

theorem C6_counterexample:
  "includes_str (req_url eur_request) ''frankfurter.app''
   \<and> cache_of API_CACHE_NAME (sw_run installed []) (req_url eur_request) = None
   \<and> cache_of CACHE_NAME (sw_run installed []) (req_url eur_request)
       = Some install_response
   \<and> fst (on_fetch eur_request None (sw_run installed [])) = Responded install_response"
proof -
  have "cache_of API_CACHE_NAME (sw_run installed []) (req_url eur_request) = None"
    by (simp add: installed_storage cache_of_def names_differ [symmetric])
  moreover have "cache_of CACHE_NAME (sw_run installed []) (req_url eur_request)
      = Some install_response"
    using installed_cache_eur
    by (simp add: installed_storage cache_of_def cache_match_def get_requests)
  moreover have "fst (on_fetch eur_request None (sw_run installed []))
      = Responded install_response"
    using eur_req_is_api installed_cache_eur by (simp add: installed_storage on_fetch_def)
  ultimately show ?thesis using eur_req_is_api by simp
qed

text \<open>
  After a first visit that fetched the rates of the base EUR, the API cache holds the
  live response for that request, and the static cache, created first, still holds the
  response stored at install time: a failing request is answered with the older one.
\<close>

lemma install_time_copy_answers_first:
  "cache_of API_CACHE_NAME (sw_run (first_visit eur_request) []) (req_url eur_request)
     = Some live_response
   \<and> fst (on_fetch eur_request None (sw_run (first_visit eur_request) []))
       = Responded install_response
   \<and> install_response \<noteq> live_response"
proof -
  have cs: "sw_run (first_visit eur_request) []
      = [(CACHE_NAME, addAll STATIC_ASSETS (\<lambda>u. Some install_response) Map.empty),
         (API_CACHE_NAME, cache_put eur_request live_response Map.empty)]"
    using eur_req_is_api by (rule first_visit_storage)
  have "cache_of API_CACHE_NAME (sw_run (first_visit eur_request) []) (req_url eur_request)
      = Some live_response"
    using eur_req_is_api get_requests(1) by (rule first_visit_api_entry)
  moreover have "fst (on_fetch eur_request None (sw_run (first_visit eur_request) []))
      = Responded install_response"
    using eur_req_is_api installed_cache_eur by (simp add: cs on_fetch_def)
  moreover have "install_response \<noteq> live_response"
    by (simp add: install_response_def live_response_def)
  ultimately show ?thesis by simp
qed

subsection \<open>The keys of the two caches\<close>

text \<open>
  C7, as the code has it. Starting from a storage with no cache of either name,
  after any events of the worker every key of the static cache is one of
  \<^verbatim>\<open>STATIC_ASSETS\<close> and every key of the API cache is a URL of the rate service, so the
  two caches share no key other than the one URL of the rate service that
  \<^verbatim>\<open>STATIC_ASSETS\<close> lists.
\<close>

theorem C7_partitions_share_only_preloaded_url:
  assumes "CACHE_NAME \<notin> fst ` set cs" and "API_CACHE_NAME \<notin> fst ` set cs"
  shows "dom (cache_of CACHE_NAME (sw_run events cs)) \<subseteq> set STATIC_ASSETS
       \<and> (\<forall>u \<in> dom (cache_of API_CACHE_NAME (sw_run events cs)).
             includes_str u ''frankfurter.app'')
       \<and> dom (cache_of CACHE_NAME (sw_run events cs))
           \<inter> dom (cache_of API_CACHE_NAME (sw_run events cs))
           \<subseteq> {''https://api.frankfurter.app/latest?from=EUR''}"
proof -
  have "dom (cache_of CACHE_NAME cs) \<subseteq> set STATIC_ASSETS"
    and "\<forall>u \<in> dom (cache_of API_CACHE_NAME cs). includes_str u ''frankfurter.app''"
    using assms by (simp_all add: cache_of_absent)
  from partitions_run [OF this, of events]
  have inv: "dom (cache_of CACHE_NAME (sw_run events cs)) \<subseteq> set STATIC_ASSETS
      \<and> (\<forall>u \<in> dom (cache_of API_CACHE_NAME (sw_run events cs)).
            includes_str u ''frankfurter.app'')" .
  then have "dom (cache_of CACHE_NAME (sw_run events cs))
      \<inter> dom (cache_of API_CACHE_NAME (sw_run events cs))
      \<subseteq> {''https://api.frankfurter.app/latest?from=EUR''}"
    using static_api_asset by blast
  with inv show ?thesis by simp
qed

theorem C7_partitions_share_only_preloaded_url_witness:
  "CACHE_NAME \<notin> fst ` set [] \<and> API_CACHE_NAME \<notin> fst ` set []
   \<and> cache_of API_CACHE_NAME (sw_run (first_visit usd_request) []) (req_url usd_request)
       = Some live_response
   \<and> cache_of CACHE_NAME (sw_run (first_visit usd_request) []) (req_url usd_request) = None
   \<and> dom (cache_of CACHE_NAME (sw_run (first_visit usd_request) []))
       \<inter> dom (cache_of API_CACHE_NAME (sw_run (first_visit usd_request) []))
       \<subseteq> {''https://api.frankfurter.app/latest?from=EUR''}"
proof -
  have api: "cache_of API_CACHE_NAME (sw_run (first_visit usd_request) []) (req_url usd_request)
      = Some live_response"
    using usd_is_api get_requests(2) by (rule first_visit_api_entry)
  have static: "cache_of CACHE_NAME (sw_run (first_visit usd_request) []) (req_url usd_request)
      = None"
    using installed_cache_usd
    by (simp add: first_visit_static_cache [OF usd_is_api] cache_match_def get_requests)
  from C7_partitions_share_only_preloaded_url [of "[]" "first_visit usd_request"] api static
  show ?thesis by simp
qed

text \<open>
  The two caches do share that key: after a first visit that fetched the rates of the
  base EUR, the request is stored in the static cache and in the API cache.
\<close>

theorem C7_counterexample:
  "cache_of CACHE_NAME (sw_run (first_visit eur_request) []) (req_url eur_request)
     = Some install_response
   \<and> cache_of API_CACHE_NAME (sw_run (first_visit eur_request) []) (req_url eur_request)
       = Some live_response"
proof -
  have "cache_of CACHE_NAME (sw_run (first_visit eur_request) []) (req_url eur_request)
      = Some install_response"
    using installed_cache_eur
    by (simp add: first_visit_static_cache [OF eur_req_is_api] cache_match_def get_requests)
  with first_visit_api_entry [OF eur_req_is_api get_requests(1)] show ?thesis by simp
qed

end
